theory Spec2Isabelle
  imports Main "HOL-Library.Signed_Division"
begin

section \<open>Go values used by gopnik.go\<close>

text \<open>
  Go's \<open>int\<close> is a 64-bit two's complement integer on the platforms the bot runs on.
  Values are modelled as \<open>int\<close>; \<open>wrap64\<close> is written wherever the source adds or
  subtracts, so that overflow is the wrap-around of the machine.
\<close>

definition wrap64 :: "int \<Rightarrow> int" where
  "wrap64 x = (x + 2 ^ 63) mod 2 ^ 64 - 2 ^ 63"

definition MaxInt64 :: int where
  "MaxInt64 = 2 ^ 63 - 1"

definition MaxUint32 :: int where
  "MaxUint32 = 4294967295"

text \<open>A run-time panic of the Go program; an unrecovered panic ends the process.\<close>

datatype panic = IndexOutOfRange | NilPointerDereference

text \<open>\<open>fmt.Sprintf("%d", n)\<close>: the decimal digits of \<open>n\<close>, with a minus sign below zero.\<close>

definition digitChar :: "nat \<Rightarrow> char" where
  "digitChar d = ''0123456789'' ! d"

fun natDigits :: "nat \<Rightarrow> string" where
  "natDigits n = (if n < 10 then [digitChar n] else natDigits (n div 10) @ [digitChar (n mod 10)])"

declare natDigits.simps [simp del]

definition showInt :: "int \<Rightarrow> string" where
  "showInt i = (if i < 0 then CHR ''-'' # natDigits (nat (- i)) else natDigits (nat i))"

section \<open>Calendar validator\<close>

text \<open>\<open>isLeapYear\<close> (gopnik.go, lines 42-48). Go's \<open>%\<close> truncates towards zero: \<open>smod\<close>.\<close>

definition isLeapYear :: "int \<Rightarrow> bool" where
  "isLeapYear year = (if year smod 400 = 0 then True else year smod 4 = 0 \<and> year smod 100 \<noteq> 0)"

text \<open>
  The local array \<open>daysInMonths\<close> of \<open>isAbsoluteDateValid\<close> after the assignment to its
  second element (lines 177-183).
\<close>

definition daysInMonths :: "int \<Rightarrow> int list" where
  "daysInMonths year =
     [31, 0, 31, 30, 31, 30, 31, 31, 30, 31, 30, 31] [1 := (if isLeapYear year then 29 else 28)]"

text \<open>
  \<open>isAbsoluteDateValid\<close> (lines 168-207). The result is the pair (message, ok) of the
  source; reading \<open>daysInMonths[month-1]\<close> outside the array panics.
\<close>

definition isAbsoluteDateValid ::
  "int \<Rightarrow> int \<Rightarrow> int \<Rightarrow> int \<Rightarrow> int \<Rightarrow> int \<Rightarrow> panic + (string \<times> bool)" where
  "isAbsoluteDateValid day month year hour minute currentYear =
     (if day = 0 \<or> day > 31 then
        Inr (''No month has '' @ showInt day @ '' days you silly goose.'', False)
      else if month = 0 then
        Inr (''There is no 0th month my dear pumpkin.'', False)
      else if month > 12 then
        Inr (''There aren't that many months!'', False)
      else
        (let idx = wrap64 (month - 1) in
         if idx < 0 \<or> idx \<ge> 12 then Inl IndexOutOfRange
         else if day > daysInMonths year ! nat idx then
           Inr (''There aren't '' @ showInt day @ '' days in this month.'', False)
         else
           (let difference = wrap64 (year - currentYear) in
            if difference < 0 \<or> difference > 1 then
              Inr (''The year has to be either '' @ showInt currentYear @ '' or ''
                     @ showInt (wrap64 (currentYear + 1)) @ ''.'', False)
            else if hour = 0 \<or> hour > 12 then
              Inr (''The time has to follow the [12-hour clock](https://en.wikipedia.org/wiki/12-hour_clock).'', False)
            else if minute > 59 then
              Inr (''Are you sure you understand the clock?'', False)
            else Inr ('''', True))))"

subsection \<open>The validator's contract, as the specification words it\<close>

definition gregorianLeap :: "int \<Rightarrow> bool" where
  "gregorianLeap y = (400 dvd y \<or> (4 dvd y \<and> \<not> 100 dvd y))"

definition dayCount :: "int \<Rightarrow> int \<Rightarrow> int" where
  "dayCount month year =
     (if month = 2 then (if gregorianLeap year then 29 else 28)
      else if month = 4 \<or> month = 6 \<or> month = 9 \<or> month = 11 then 30
      else 31)"

definition validDate :: "int \<Rightarrow> int \<Rightarrow> int \<Rightarrow> int \<Rightarrow> int \<Rightarrow> int \<Rightarrow> bool" where
  "validDate day month year hour minute currentYear =
     (1 \<le> day \<and> day \<le> dayCount month year \<and> 1 \<le> month \<and> month \<le> 12
      \<and> (year - currentYear = 0 \<or> year - currentYear = 1)
      \<and> 1 \<le> hour \<and> hour \<le> 12 \<and> 0 \<le> minute \<and> minute \<le> 59)"

datatype rule = DayBounds | MonthBounds | DayPerMonth | YearWindow | HourBounds | MinuteBounds

definition firstViolated :: "int \<Rightarrow> int \<Rightarrow> int \<Rightarrow> int \<Rightarrow> int \<Rightarrow> int \<Rightarrow> rule option" where
  "firstViolated day month year hour minute currentYear =
     (if \<not> (1 \<le> day \<and> day \<le> 31) then Some DayBounds
      else if \<not> (1 \<le> month \<and> month \<le> 12) then Some MonthBounds
      else if day > dayCount month year then Some DayPerMonth
      else if \<not> (year - currentYear = 0 \<or> year - currentYear = 1) then Some YearWindow
      else if \<not> (1 \<le> hour \<and> hour \<le> 12) then Some HourBounds
      else if \<not> (0 \<le> minute \<and> minute \<le> 59) then Some MinuteBounds
      else None)"

text \<open>The message the source gives for each rule.\<close>

definition ruleMessage :: "rule \<Rightarrow> int \<Rightarrow> int \<Rightarrow> int \<Rightarrow> string" where
  "ruleMessage r day month currentYear =
     (case r of
        DayBounds \<Rightarrow> ''No month has '' @ showInt day @ '' days you silly goose.''
      | MonthBounds \<Rightarrow>
          (if month = 0 then ''There is no 0th month my dear pumpkin.''
           else ''There aren't that many months!'')
      | DayPerMonth \<Rightarrow> ''There aren't '' @ showInt day @ '' days in this month.''
      | YearWindow \<Rightarrow>
          ''The year has to be either '' @ showInt currentYear @ '' or ''
            @ showInt (currentYear + 1) @ ''.''
      | HourBounds \<Rightarrow>
          ''The time has to follow the [12-hour clock](https://en.wikipedia.org/wiki/12-hour_clock).''
      | MinuteBounds \<Rightarrow> ''Are you sure you understand the clock?'')"

definition validate_spec :: "int \<Rightarrow> int \<Rightarrow> int \<Rightarrow> int \<Rightarrow> int \<Rightarrow> int \<Rightarrow> string \<times> bool" where
  "validate_spec day month year hour minute currentYear =
     (case firstViolated day month year hour minute currentYear of
        None \<Rightarrow> ('''', True)
      | Some r \<Rightarrow> (ruleMessage r day month currentYear, False))"

section \<open>Strings and numbers from the command text\<close>

text \<open>
  \<open>strconv.Atoi\<close> as the handlers call it, with the error discarded
  (\<open>n, _ := strconv.Atoi(s)\<close>): the value of a digit string, the largest \<open>int\<close> when the
  value does not fit, and 0 for the empty string. Every call passes the text of a \<open>\d\<close>
  capture group, so signs and other characters are not modelled (they give 0 here).
\<close>

definition isDigit :: "char \<Rightarrow> bool" where
  "isDigit c = (c \<in> set ''0123456789'')"

definition digitValue :: "char \<Rightarrow> int" where
  "digitValue c = of_char c - of_char CHR ''0''"

definition decimal :: "string \<Rightarrow> int" where
  "decimal s = foldl (\<lambda>acc c. acc * 10 + digitValue c) 0 s"

definition Atoi :: "string \<Rightarrow> int" where
  "Atoi s = (if s \<noteq> [] \<and> list_all isDigit s then min (decimal s) MaxInt64 else 0)"

text \<open>\<open>fmt.Sprintf("%02d", n)\<close>: at least two characters, padded with a zero on the left.\<close>

definition pad2 :: "int \<Rightarrow> string" where
  "pad2 n = (let s = showInt n in if length s < 2 then CHR ''0'' # s else s)"

text \<open>
  The text both reminder handlers hand to \<open>time.ParseInLocation\<close>:
  \<open>fmt.Sprintf("%d-%02d-%02d %02d:%02d:%02d", year, month, day, dbHour, minute, 0)\<close>.
\<close>

definition dateTimeText :: "int \<Rightarrow> int \<Rightarrow> int \<Rightarrow> int \<Rightarrow> int \<Rightarrow> string" where
  "dateTimeText year month day dbHour minute =
     showInt year @ ''-'' @ pad2 month @ ''-'' @ pad2 day @ '' ''
       @ pad2 dbHour @ '':'' @ pad2 minute @ '':'' @ pad2 0"

text \<open>
  \<open>strings.Replace(s, " my ", " your ", -1)\<close>: every non-overlapping occurrence, from the
  left.
\<close>

function replaceMy :: "string \<Rightarrow> string" where
  "replaceMy s =
     (if s = [] then []
      else if take 4 s = '' my '' then '' your '' @ replaceMy (drop 4 s)
      else hd s # replaceMy (tl s))"
  by pat_completeness auto
termination
  by (relation "measure length") (auto simp: neq_Nil_conv)

declare replaceMy.simps [simp del]

section \<open>Time\<close>

text \<open>
  A \<open>time.Time\<close> is modelled by the instant it denotes, in nanoseconds since the Unix
  epoch; \<open>Before\<close> and \<open>After\<close> compare instants. Every time the program stores was
  converted with \<open>UTC()\<close> first and is read back in UTC, where \<open>AddDate(0, 0, 1)\<close> keeps
  the clock reading and moves the date one day on: the instant 24 hours later (Go's
  clock has no leap seconds).
\<close>

type_synonym instant = int

definition nanosPerDay :: int where
  "nanosPerDay = 86400 * 1000000000"

definition addOneDay :: "instant \<Rightarrow> instant" where
  "addOneDay t = t + nanosPerDay"

text \<open>
  A \<open>*time.Location\<close> is identified by its name, which \<open>Location.String()\<close> returns.
  The parts of Go's package \<open>time\<close> that depend on the host's zone database are
  parameters of the model:
  \<^item> \<open>zoneKnown\<close>: the names the zone database can load;
  \<^item> \<open>dateIn loc t\<close>: year, month and day of \<open>t.In(loc)\<close>;
  \<^item> \<open>parseInLocation loc s\<close>: \<open>time.ParseInLocation(time.DateTime, s, loc)\<close>, \<open>None\<close> when
    it returns an error.
\<close>

type_synonym location = string

record timelib =
  zoneKnown :: "string \<Rightarrow> bool"
  dateIn :: "location \<Rightarrow> instant \<Rightarrow> int \<times> int \<times> int"
  parseInLocation :: "location \<Rightarrow> string \<Rightarrow> instant option"

datatype error = UnknownTimeZone string

text \<open>
  \<open>time.LoadLocation\<close> (Go standard library): the names \<open>""\<close> and \<open>"UTC"\<close> give UTC,
  \<open>"Local"\<close> gives Local, any other name is looked up in the zone database.
\<close>

definition LoadLocation :: "timelib \<Rightarrow> string \<Rightarrow> error + location" where
  "LoadLocation lib name =
     (if name = '''' \<or> name = ''UTC'' then Inr ''UTC''
      else if name = ''Local'' then Inr ''Local''
      else if zoneKnown lib name then Inr name
      else Inl (UnknownTimeZone name))"

section \<open>The reminder store\<close>

text \<open>
  A row of table \<open>Reminders\<close> (columns id, who, time, toRemind, recurring) and a row of
  table \<open>TimezonePreferences\<close> (columns id, who, timezonePreference). A table is the list
  of its rows in the order \<open>SELECT *\<close> returns them.
\<close>

record reminder =
  rId :: int
  rWho :: string
  rTime :: instant
  rToRemind :: string
  rRecurring :: bool

record preference =
  pId :: int
  pWho :: string
  pTimezonePreference :: string

record store =
  reminders :: "reminder list"
  preferences :: "preference list"

text \<open>
  Any statement may fail in the database driver (a locked or unreadable file, for
  instance). Which statements of one handler call fail is decided by the environment:
  \<^item> \<open>prefQueryFails\<close>: the \<open>SELECT\<close> on \<open>TimezonePreferences\<close> returns an error other
    than \<open>sql.ErrNoRows\<close>;
  \<^item> \<open>insertFails\<close>: the \<open>INSERT INTO Reminders\<close> returns an error;
  \<^item> \<open>lookupFails\<close>: \<open>SELECT who FROM Reminders WHERE id=?\<close> returns an error other than
    \<open>sql.ErrNoRows\<close>;
  \<^item> \<open>deleteFails\<close>: \<open>DELETE FROM Reminders WHERE id=?\<close> returns an error.
\<close>

record faults =
  prefQueryFails :: bool
  insertFails :: bool
  lookupFails :: bool
  deleteFails :: bool

text \<open>The outcome of \<open>QueryRow(...).Scan(...)\<close>: a row, \<open>sql.ErrNoRows\<close>, or another error.\<close>

datatype 'a queried = Row 'a | ErrNoRows | QueryError

definition queryPreference :: "faults \<Rightarrow> store \<Rightarrow> string \<Rightarrow> string queried" where
  "queryPreference flt db author =
     (if prefQueryFails flt then QueryError
      else case filter (\<lambda>p. pWho p = author) (preferences db) of
             [] \<Rightarrow> ErrNoRows
           | p # _ \<Rightarrow> Row (pTimezonePreference p))"

definition queryWho :: "faults \<Rightarrow> store \<Rightarrow> int \<Rightarrow> string queried" where
  "queryWho flt db i =
     (if lookupFails flt then QueryError
      else case filter (\<lambda>r. rId r = i) (reminders db) of
             [] \<Rightarrow> ErrNoRows
           | r # _ \<Rightarrow> Row (rWho r))"

text \<open>
  \<open>INSERT INTO Reminders VALUES(NULL, who, time, toRemind, recurring)\<close>: SQLite gives the
  new row an id one larger than the largest id in the table, or 1 in an empty table.
\<close>

definition nextId :: "reminder list \<Rightarrow> int" where
  "nextId rows = (case rows of [] \<Rightarrow> 1 | r # rs \<Rightarrow> foldl max (rId r) (map rId rs) + 1)"

definition insertReminder :: "store \<Rightarrow> string \<Rightarrow> instant \<Rightarrow> string \<Rightarrow> bool \<Rightarrow> store" where
  "insertReminder db author t text rec =
     db\<lparr>reminders := reminders db @
          [\<lparr>rId = nextId (reminders db), rWho = author, rTime = t, rToRemind = text,
            rRecurring = rec\<rparr>]\<rparr>"

definition deleteReminder :: "store \<Rightarrow> int \<Rightarrow> store" where
  "deleteReminder db i = db\<lparr>reminders := filter (\<lambda>r. rId r \<noteq> i) (reminders db)\<rparr>"

section \<open>Timezone resolver\<close>

text \<open>
  \<open>resolveLocation\<close> (lines 213-230). When the query fails with an error other than
  \<open>sql.ErrNoRows\<close>, \<open>Scan\<close> has assigned nothing and \<open>existingTzPreference\<close> is still the
  empty string.
\<close>

definition resolveLocation :: "timelib \<Rightarrow> faults \<Rightarrow> store \<Rightarrow> string \<Rightarrow> string \<Rightarrow> error + location" where
  "resolveLocation lib flt db author locationMatch =
     (if length locationMatch > 0 then LoadLocation lib locationMatch
      else case queryPreference flt db author of
             ErrNoRows \<Rightarrow> LoadLocation lib ''Europe/Warsaw''
           | Row existingTzPreference \<Rightarrow> LoadLocation lib existingTzPreference
           | QueryError \<Rightarrow> LoadLocation lib '''')"

section \<open>Removing a reminder\<close>

text \<open>
  \<open>handleRmreminderRegexMatch\<close> (lines 140-166). \<open>matches\<close> is the result of
  \<open>FindStringSubmatch\<close>; the handler's result is the list of replies it sends, in order,
  and the store it leaves. After a failed lookup \<open>who\<close> is the empty string.
\<close>

definition handleRmreminderRegexMatch ::
  "faults \<Rightarrow> string \<Rightarrow> store \<Rightarrow> string list \<Rightarrow> panic + (string list \<times> store)" where
  "handleRmreminderRegexMatch flt author db matches =
     (if length matches < 2 then Inl IndexOutOfRange
      else
        (let i = Atoi (matches ! 1) in
         if i > MaxUint32 then
           Inr ([''The ID is too big, has to be between 0 and '' @ showInt MaxUint32 @ ''.''], db)
         else
           (case queryWho flt db i of
              ErrNoRows \<Rightarrow>
                Inr ([''There isn't a reminder with that ID. Make sure you provided the correct one.''], db)
            | q \<Rightarrow>
                (let who = (case q of Row w \<Rightarrow> w | _ \<Rightarrow> '''') in
                 if author \<noteq> who then
                   Inr ([''You cannot remove someone else's reminders!''], db)
                 else if deleteFails flt then
                   Inr ([''Something went wrong while deleting the reminder. Check the stderr output.'',
                         ''Successfully deleted the reminder.''], db)
                 else
                   Inr ([''Successfully deleted the reminder.''], deleteReminder db i)))))"

section \<open>Scheduling a reminder\<close>

text \<open>
  \<open>handleAbsoluteRegexMatch\<close> (lines 232-311). \<open>now\<close> is the value of \<open>time.Now()\<close>;
  \<open>matches\<close> is the result of \<open>FindStringSubmatch\<close> for the pattern
  \<open>!remindme on D.M[.YYYY] at H[:MM] AM|PM [Zone] text\<close>, with the captures at indices
  1 to 8.
\<close>

definition handleAbsoluteRegexMatch ::
  "timelib \<Rightarrow> faults \<Rightarrow> string \<Rightarrow> instant \<Rightarrow> store \<Rightarrow> string list
     \<Rightarrow> panic + (string list \<times> store)" where
  "handleAbsoluteRegexMatch lib flt author now db matches =
     (if length matches < 9 then Inl IndexOutOfRange
      else
        (let toRemind = matches ! 8 in
         if length toRemind > 1500 then
           Inr ([''The maximum reminder length is 1500 characters, you naughty person.''], db)
         else
           (case resolveLocation lib flt db author (matches ! 7) of
              Inl err \<Rightarrow>
                Inr ([''Couldn't resolve your location. Make sure you spelled it correctly or check the stderr output.''], db)
            | Inr location \<Rightarrow>
                (let currentYear = fst (dateIn lib location now);
                     day = Atoi (matches ! 1);
                     month = Atoi (matches ! 2);
                     year = (if length (matches ! 3) > 0 then Atoi (matches ! 3) else currentYear);
                     hour = Atoi (matches ! 4);
                     minute = (if length (matches ! 5) > 0 then Atoi (matches ! 5) else 0)
                 in
                 case isAbsoluteDateValid day month year hour minute currentYear of
                   Inl p \<Rightarrow> Inl p
                 | Inr (errMsg, ok) \<Rightarrow>
                     if \<not> ok then Inr ([errMsg], db)
                     else
                       (let period = matches ! 6;
                            dbHour = (if period = ''AM'' \<and> hour = 12 then 0
                                      else if period = ''PM'' \<and> hour < 12 then hour + 12
                                      else hour)
                        in
                        case parseInLocation lib location (dateTimeText year month day dbHour minute) of
                          None \<Rightarrow>
                            Inr ([''Something went wrong while parsing the time. Check the stderr output.''], db)
                        | Some targetTime \<Rightarrow>
                            if targetTime < now then
                              Inr ([''The date cannot be in the past, who would've guessed?''], db)
                            else if insertFails flt then
                              Inr ([''Something went wrong while inserting to the DB. Check the stderr output.''], db)
                            else
                              Inr ([replaceMy
                                      (''Successfully added to the database. I'll remind you ''
                                         @ toRemind @ '' on '' @ pad2 day @ ''.'' @ pad2 month @ ''.''
                                         @ showInt year @ '' at '' @ pad2 hour @ '':'' @ pad2 minute
                                         @ '' '' @ period @ '' in the '' @ location @ '' timezone.'')],
                                   insertReminder db author targetTime (replaceMy toRemind) False))))))"

text \<open>
  \<open>handleRecurringRegexMatch\<close> (lines 365-431), for the pattern
  \<open>!remindme every day at H[:MM] AM|PM [Zone] text\<close>, with the captures at indices 1 to 5.
\<close>

definition handleRecurringRegexMatch ::
  "timelib \<Rightarrow> faults \<Rightarrow> string \<Rightarrow> instant \<Rightarrow> store \<Rightarrow> string list
     \<Rightarrow> panic + (string list \<times> store)" where
  "handleRecurringRegexMatch lib flt author now db matches =
     (if length matches < 6 then Inl IndexOutOfRange
      else
        (let toRemind = matches ! 5 in
         if length toRemind > 1500 then
           Inr ([''The maximum reminder length is 1500 characters, you naughty person.''], db)
         else
           (case resolveLocation lib flt db author (matches ! 4) of
              Inl err \<Rightarrow>
                Inr ([''Couldn't resolve your location. Make sure you spelled it correctly or check the stderr output.''], db)
            | Inr location \<Rightarrow>
                (case dateIn lib location now of
                   (currentYear, currentMonth, currentDay) \<Rightarrow>
                     (let hour = Atoi (matches ! 1);
                          minute = (if length (matches ! 2) > 0 then Atoi (matches ! 2) else 0)
                      in
                      case isAbsoluteDateValid currentDay currentMonth currentYear hour minute currentYear of
                        Inl p \<Rightarrow> Inl p
                      | Inr (errMsg, ok) \<Rightarrow>
                          if \<not> ok then Inr ([errMsg], db)
                          else
                            (let period = matches ! 3;
                                 dbHour = (if period = ''AM'' \<and> hour = 12 then 0
                                           else if period = ''PM'' \<and> hour < 12 then hour + 12
                                           else hour)
                             in
                             case parseInLocation lib location
                                    (dateTimeText currentYear currentMonth currentDay dbHour minute) of
                               None \<Rightarrow>
                                 Inr ([''Something went wrong while parsing the time. Check the stderr output.''], db)
                             | Some today \<Rightarrow>
                                 (let targetTime = (if today < now then addOneDay today else today) in
                                  if insertFails flt then
                                    Inr ([''Something went wrong while inserting to the DB. Check the stderr output.''], db)
                                  else
                                    Inr ([replaceMy
                                            (''Successfully added to the database. I'll remind you ''
                                               @ toRemind @ '' every day at '' @ pad2 hour @ '':''
                                               @ pad2 minute @ '' '' @ period @ '' in the '' @ location
                                               @ '' timezone.'')],
                                         insertReminder db author targetTime (replaceMy toRemind) True))))))))"

subsection \<open>The scheduling rules, as the specification words them\<close>

text \<open>
  The 12-hour to 24-hour conversion of the specification: AM and hour 12 give 0, PM and an
  hour below 12 give hour + 12, anything else is unchanged.
\<close>

definition to24h :: "string \<Rightarrow> int \<Rightarrow> int" where
  "to24h period hour =
     (if period = ''AM'' \<and> hour = 12 then 0
      else if period = ''PM'' \<and> hour < 12 then hour + 12
      else hour)"

text \<open>
  The fully resolved target of an Absolute request: the request passes the length check,
  its zone resolves to \<open>location\<close>, its fields (the year defaulting to the current year in
  that zone, the minute to 0) pass the calendar validator, and the time library reads
  that date with the converted hour, in \<open>location\<close>, as the instant \<open>t\<close>.
\<close>

definition absoluteTarget ::
  "timelib \<Rightarrow> faults \<Rightarrow> string \<Rightarrow> instant \<Rightarrow> store \<Rightarrow> string list \<Rightarrow> location \<Rightarrow> instant \<Rightarrow> bool" where
  "absoluteTarget lib flt author now db matches location t =
     (let currentYear = fst (dateIn lib location now);
          day = Atoi (matches ! 1);
          month = Atoi (matches ! 2);
          year = (if matches ! 3 = '''' then currentYear else Atoi (matches ! 3));
          hour = Atoi (matches ! 4);
          minute = (if matches ! 5 = '''' then 0 else Atoi (matches ! 5))
      in length matches = 9 \<and> length (matches ! 8) \<le> 1500
         \<and> resolveLocation lib flt db author (matches ! 7) = Inr location
         \<and> isAbsoluteDateValid day month year hour minute currentYear = Inr ('''', True)
         \<and> parseInLocation lib location
              (dateTimeText year month day (to24h (matches ! 6) hour) minute) = Some t)"

text \<open>
  Today's occurrence of a Recurring request: the request passes the length check, its
  zone resolves to \<open>location\<close>, its time of day passes the validator together with today's
  date in that zone, and the time library reads today's date with the converted hour, in
  \<open>location\<close>, as the instant \<open>today\<close>.
\<close>

definition recurringToday ::
  "timelib \<Rightarrow> faults \<Rightarrow> string \<Rightarrow> instant \<Rightarrow> store \<Rightarrow> string list \<Rightarrow> location \<Rightarrow> instant \<Rightarrow> bool" where
  "recurringToday lib flt author now db matches location today =
     (case dateIn lib location now of
        (currentYear, currentMonth, currentDay) \<Rightarrow>
          (let hour = Atoi (matches ! 1);
               minute = (if matches ! 2 = '''' then 0 else Atoi (matches ! 2))
           in length matches = 6 \<and> length (matches ! 5) \<le> 1500
              \<and> resolveLocation lib flt db author (matches ! 4) = Inr location
              \<and> isAbsoluteDateValid currentDay currentMonth currentYear hour minute currentYear
                  = Inr ('''', True)
              \<and> parseInLocation lib location
                   (dateTimeText currentYear currentMonth currentDay (to24h (matches ! 3) hour) minute)
                  = Some today))"

section \<open>A host whose zone database holds Etc/UTC only\<close>

text \<open>
  An instance of the time library for the examples below. Every location this host can
  load is UTC, so the date of an instant and the instant of a date and time are plain
  arithmetic in the proleptic Gregorian calendar (days counted from 1970-01-01).
\<close>

definition daysFromCivil :: "int \<Rightarrow> int \<Rightarrow> int \<Rightarrow> int" where
  "daysFromCivil y m d =
     (let y' = (if m \<le> 2 then y - 1 else y);
          era = y' div 400;
          yoe = y' - era * 400;
          doy = (153 * (if m > 2 then m - 3 else m + 9) + 2) div 5 + d - 1;
          doe = yoe * 365 + yoe div 4 - yoe div 100 + doy
      in era * 146097 + doe - 719468)"

definition civilFromDays :: "int \<Rightarrow> int \<times> int \<times> int" where
  "civilFromDays z =
     (let z' = z + 719468;
          era = z' div 146097;
          doe = z' - era * 146097;
          yoe = (doe - doe div 1460 + doe div 36524 - doe div 146096) div 365;
          doy = doe - (365 * yoe + yoe div 4 - yoe div 100);
          mp = (5 * doy + 2) div 153;
          d = doy - (153 * mp + 2) div 5 + 1;
          m = (if mp < 10 then mp + 3 else mp - 9)
      in ((if m \<le> 2 then yoe + era * 400 + 1 else yoe + era * 400), m, d))"

definition utcDateIn :: "location \<Rightarrow> instant \<Rightarrow> int \<times> int \<times> int" where
  "utcDateIn loc t = civilFromDays (t div nanosPerDay)"

definition utcParse :: "location \<Rightarrow> string \<Rightarrow> instant option" where
  "utcParse loc s =
     (let y = decimal (take 4 s);
          mo = decimal (take 2 (drop 5 s));
          d = decimal (take 2 (drop 8 s));
          h = decimal (take 2 (drop 11 s));
          mi = decimal (take 2 (drop 14 s));
          sec = decimal (take 2 (drop 17 s))
      in if length s = 19
            \<and> list_all isDigit (take 4 s @ take 2 (drop 5 s) @ take 2 (drop 8 s)
                  @ take 2 (drop 11 s) @ take 2 (drop 14 s) @ take 2 (drop 17 s))
            \<and> [s ! 4, s ! 7, s ! 10, s ! 13, s ! 16] = ''-- ::''
            \<and> 1 \<le> mo \<and> mo \<le> 12 \<and> 1 \<le> d \<and> d \<le> dayCount mo y
            \<and> h < 24 \<and> mi < 60 \<and> sec < 60
         then Some ((daysFromCivil y mo d * 86400 + h * 3600 + mi * 60 + sec) * 1000000000)
         else None)"

definition utcHost :: timelib where
  "utcHost = \<lparr>zoneKnown = (\<lambda>name. name = ''Etc/UTC''), dateIn = utcDateIn,
              parseInLocation = utcParse\<rparr>"

definition noFaults :: faults where
  "noFaults = \<lparr>prefQueryFails = False, insertFails = False, lookupFails = False,
               deleteFails = False\<rparr>"

section \<open>Due-reminder sweeper\<close>

text \<open>The struct \<open>rowToUpdate\<close> (lines 27-31), fields id, newTime, who.\<close>

record rowToUpdate =
  uId :: int
  uNewTime :: instant
  uWho :: string

text \<open>
  What the environment decides at one tick of \<open>handleReminders\<close>:
  \<^item> \<open>currentTime\<close>: the value received from \<open>ticker.C\<close>;
  \<^item> \<open>dbFileMissing\<close>: \<open>os.Stat("./reminders.db")\<close> reports that the file does not exist;
  \<^item> \<open>selectFails\<close>: \<open>SELECT * FROM Reminders\<close> returns an error, and with it nil rows;
  \<^item> \<open>batchDeleteFails\<close>: the \<open>DELETE ... WHERE id IN (...)\<close> statement returns an error;
  \<^item> \<open>updateFails i\<close>: the \<open>UPDATE\<close> of the row with id \<open>i\<close> returns an error.
\<close>

record tick =
  currentTime :: instant
  dbFileMissing :: bool
  selectFails :: bool
  batchDeleteFails :: bool
  updateFails :: "int \<Rightarrow> bool"

definition reminderMessage :: "reminder \<Rightarrow> string" where
  "reminderMessage r = ''<@'' @ rWho r @ ''>, reminding you '' @ rToRemind r @ ''.''"

definition updateFailedMessage :: "rowToUpdate \<Rightarrow> string" where
  "updateFailedMessage u =
     ''<@'' @ uWho u @ ''>, couldn't update the recurring reminder. You might need to set it again.''"

text \<open>
  The loop over the selected rows (lines 535-564). \<open>sent\<close> collects the messages passed to
  \<open>ChannelMessageSend\<close>; an error of the send is printed and changes nothing else.
\<close>

fun scanRows ::
  "instant \<Rightarrow> reminder list \<Rightarrow> string list \<Rightarrow> int list \<Rightarrow> rowToUpdate list
     \<Rightarrow> string list \<times> int list \<times> rowToUpdate list" where
  "scanRows now [] sent rowsToDelete rowsToUpdate = (sent, rowsToDelete, rowsToUpdate)"
| "scanRows now (r # rows) sent rowsToDelete rowsToUpdate =
     (if now > rTime r then
        (if rRecurring r then
           scanRows now rows (sent @ [reminderMessage r]) rowsToDelete
             (rowsToUpdate @ [\<lparr>uId = rId r, uNewTime = addOneDay (rTime r), uWho = rWho r\<rparr>])
         else
           scanRows now rows (sent @ [reminderMessage r]) (rowsToDelete @ [rId r]) rowsToUpdate)
      else scanRows now rows sent rowsToDelete rowsToUpdate)"

text \<open>
  The loop over \<open>rowsToUpdate\<close> (lines 579-589): \<open>UPDATE Reminders SET time=? WHERE id=?\<close>
  for each entry, and a message to the owner when the statement fails.
\<close>

fun applyUpdates ::
  "(int \<Rightarrow> bool) \<Rightarrow> rowToUpdate list \<Rightarrow> reminder list \<Rightarrow> string list
     \<Rightarrow> reminder list \<times> string list" where
  "applyUpdates fails [] rows sent = (rows, sent)"
| "applyUpdates fails (u # us) rows sent =
     (if fails (uId u) then applyUpdates fails us rows (sent @ [updateFailedMessage u])
      else applyUpdates fails us
             (map (\<lambda>r. if rId r = uId u then r\<lparr>rTime := uNewTime u\<rparr> else r) rows) sent)"

text \<open>
  One iteration of the loop of \<open>handleReminders\<close> (lines 524-590), with the values of its
  local variables \<open>rowsToDelete\<close> and \<open>rowsToUpdate\<close> kept beside the messages sent and the
  store it leaves. The statement \<open>DELETE FROM Reminders WHERE id IN (i1,...,in)\<close> removes the
  rows whose id is listed (none for the empty list); after a failed \<open>SELECT\<close> the call
  \<open>rows.Next()\<close> dereferences nil.
\<close>

record swept =
  sent :: "string list"
  rowsToDelete :: "int list"
  rowsToUpdate :: "rowToUpdate list"
  storeAfter :: store

definition sweepTick :: "tick \<Rightarrow> store \<Rightarrow> panic + swept" where
  "sweepTick t db =
     (if dbFileMissing t then
        Inr \<lparr>sent = [], rowsToDelete = [], rowsToUpdate = [], storeAfter = db\<rparr>
      else if selectFails t then Inl NilPointerDereference
      else
        (case scanRows (currentTime t) (reminders db) [] [] [] of
           (msgs, del, upd) \<Rightarrow>
             (let rows1 = (if batchDeleteFails t then reminders db
                           else filter (\<lambda>r. rId r \<notin> set del) (reminders db))
              in case applyUpdates (updateFails t) upd rows1 msgs of
                   (rows2, msgs2) \<Rightarrow>
                     Inr \<lparr>sent = msgs2, rowsToDelete = del, rowsToUpdate = upd,
                          storeAfter = db\<lparr>reminders := rows2\<rparr>\<rparr>)))"

text \<open>
  \<open>handleReminders\<close> (lines 523-591): the loop \<open>for currentTime := range ticker.C\<close>, run on
  the ticks the channel delivers. The result lists what each iteration did.
\<close>

fun handleReminders :: "store \<Rightarrow> tick list \<Rightarrow> panic + (swept list \<times> store)" where
  "handleReminders db [] = Inr ([], db)"
| "handleReminders db (t # ticks) =
     (case sweepTick t db of
        Inl p \<Rightarrow> Inl p
      | Inr res \<Rightarrow>
          (case handleReminders (storeAfter res) ticks of
             Inl p \<Rightarrow> Inl p
           | Inr (rest, db') \<Rightarrow> Inr (res # rest, db')))"

subsection \<open>Observations on a run of the sweeper\<close>

text \<open>A tick at which the database file exists and every statement succeeds.\<close>

definition tickOk :: "tick \<Rightarrow> bool" where
  "tickOk t = (\<not> dbFileMissing t \<and> \<not> selectFails t \<and> \<not> batchDeleteFails t
               \<and> (\<forall>i. \<not> updateFails t i))"

text \<open>The rows due at a tick: those whose stored time is before the tick's instant.\<close>

definition dueRows :: "instant \<Rightarrow> store \<Rightarrow> reminder list" where
  "dueRows now db = filter (\<lambda>x. rTime x < now) (reminders db)"

text \<open>
  A run in which every tick sent exactly one message per due row of the store it found,
  the message of that row, in table order, and nothing else. \<open>results\<close> is what the loop
  did at each of \<open>ticks\<close>, starting from the store \<open>db\<close>.
\<close>

fun sentPerDueRow :: "store \<Rightarrow> tick list \<Rightarrow> swept list \<Rightarrow> bool" where
  "sentPerDueRow db [] [] = True"
| "sentPerDueRow db (t # ticks) (res # results) =
     (sent res = map reminderMessage (dueRows (currentTime t) db)
      \<and> sentPerDueRow (storeAfter res) ticks results)"
| "sentPerDueRow db ticks results = False"

text \<open>
  How many times, over such a run, a row with id \<open>i\<close> was among the due rows of the store
  a tick found: the number of messages of the run that are for the reminder \<open>i\<close>.
\<close>

fun timesDue :: "int \<Rightarrow> store \<Rightarrow> tick list \<Rightarrow> swept list \<Rightarrow> nat" where
  "timesDue i db (t # ticks) (res # results) =
     count_list (map rId (dueRows (currentTime t) db)) i
       + timesDue i (storeAfter res) ticks results"
| "timesDue i db ticks results = 0"

text \<open>
  The message of \<open>r\<close> tells \<open>r\<close> apart in the store: a stored reminder has the message of
  \<open>r\<close> exactly when it has the id of \<open>r\<close>. Then the messages for \<open>r\<close> can be counted in
  what was sent.
\<close>

definition messageIdentifies :: "reminder \<Rightarrow> store \<Rightarrow> bool" where
  "messageIdentifies r db =
     list_all (\<lambda>x. (reminderMessage x = reminderMessage r) = (rId x = rId r)) (reminders db)"

section \<open>Schema bootstrap\<close>

text \<open>
  What \<open>bootstrapDb\<close> reads and writes of the database file: the \<open>user_version\<close> counter
  and, for each of the two tables, its columns (\<open>None\<close> while the table does not exist).
  \<open>walMode\<close> tells whether the file is in SQLite's write-ahead-log journal mode, a setting
  kept in the file; a file that \<open>sql.Open\<close> creates is in rollback-journal mode.
\<close>

record schema =
  userVersion :: int
  remindersColumns :: "string list option"
  preferencesColumns :: "string list option"
  walMode :: bool

text \<open>
  The calls of \<open>bootstrapDb\<close> that return an error value, in source order. The environment
  may make any of them fail (\<open>fails\<close> below); the statement at line 628 also fails by
  SQLite's locking, as \<open>case0\<close> describes.
\<close>

datatype dbcall =
    OpenDb | ReadUserVersion
  | Begin0 | CreateReminders | CreateTimezonePreferences | SetUserVersion1 | Commit0
  | Begin1 | AddRecurring | SetUserVersion2 | Commit1

text \<open>\<open>CREATE TABLE IF NOT EXISTS\<close> leaves an existing table as it is.\<close>

definition createReminders :: "schema \<Rightarrow> schema" where
  "createReminders s =
     (case remindersColumns s of
        None \<Rightarrow> s\<lparr>remindersColumns := Some [''id'', ''who'', ''time'', ''toRemind'']\<rparr>
      | Some cols \<Rightarrow> s)"

definition createTimezonePreferences :: "schema \<Rightarrow> schema" where
  "createTimezonePreferences s =
     (case preferencesColumns s of
        None \<Rightarrow> s\<lparr>preferencesColumns := Some [''id'', ''who'', ''timezonePreference'']\<rparr>
      | Some cols \<Rightarrow> s)"

text \<open>
  \<open>ALTER TABLE Reminders ADD recurring ...\<close> is an error when the table does not exist or
  already has the column.
\<close>

definition addRecurring :: "schema \<Rightarrow> schema option" where
  "addRecurring s =
     (case remindersColumns s of
        None \<Rightarrow> None
      | Some cols \<Rightarrow>
          if ''recurring'' \<in> set cols then None
          else Some (s\<lparr>remindersColumns := Some (cols @ [''recurring''])\<rparr>))"

text \<open>
  The statement at line 628 is executed with \<open>db.Exec\<close>, not \<open>tx.Exec\<close>: while the
  transaction keeps its connection, \<open>database/sql\<close> runs it on a second connection to the
  same file. It has to write when table \<open>TimezonePreferences\<close> does not exist yet.
\<close>

definition outsideWrite :: "schema \<Rightarrow> bool" where
  "outsideWrite disk = (preferencesColumns disk = None)"

text \<open>
  SQLite refuses that write with "database is locked" when the open transaction holds
  the write lock (it has created table \<open>Reminders\<close>), and in rollback-journal mode also when
  the transaction has only read: the read lock it keeps until it ends blocks the commit
  of the other connection. In write-ahead-log mode a reader does not block the writer.
\<close>

definition lockedOut :: "schema \<Rightarrow> bool" where
  "lockedOut disk = (outsideWrite disk \<and> (remindersColumns disk = None \<or> \<not> walMode disk))"

text \<open>
  The body of \<open>case 0\<close> (lines 611-645). \<open>disk\<close> is the committed content of the file,
  \<open>view\<close> what the open transaction has written and would commit. A statement executed
  with \<open>tx.Exec\<close> changes \<open>view\<close> only; the statement executed with \<open>db.Exec\<close>, when it is
  not locked out, changes the file at once. After such a write from outside, the
  transaction's own view of the file is out of date, and SQLite refuses its next write,
  \<open>PRAGMA user_version = 1\<close>. Every error return runs the deferred \<open>tx.Rollback()\<close>, which
  drops \<open>view\<close>. The result is the call whose error is returned, if any, and the content
  of the file.
\<close>

definition case0 :: "(dbcall \<Rightarrow> bool) \<Rightarrow> schema \<Rightarrow> dbcall option \<times> schema" where
  "case0 fails disk =
     (if fails Begin0 then (Some Begin0, disk)
      else if fails CreateReminders then (Some CreateReminders, disk)
      else
        (let view1 = createReminders disk in
         if fails CreateTimezonePreferences \<or> lockedOut disk then
           (Some CreateTimezonePreferences, disk)
         else
           (let disk2 = createTimezonePreferences disk;
                view2 = createTimezonePreferences view1
            in if fails SetUserVersion1 \<or> outsideWrite disk then (Some SetUserVersion1, disk2)
               else
                 (let view3 = view2\<lparr>userVersion := 1\<rparr> in
                  if fails Commit0 then (Some Commit0, disk2)
                  else (None, view3)))))"

text \<open>The body of \<open>case 1\<close> (lines 650-668): every statement runs in the transaction.\<close>

definition case1 :: "(dbcall \<Rightarrow> bool) \<Rightarrow> schema \<Rightarrow> dbcall option \<times> schema" where
  "case1 fails disk =
     (if fails Begin1 then (Some Begin1, disk)
      else
        (case (if fails AddRecurring then None else addRecurring disk) of
           None \<Rightarrow> (Some AddRecurring, disk)
         | Some view1 \<Rightarrow>
             if fails SetUserVersion2 then (Some SetUserVersion2, disk)
             else
               (let view2 = view1\<lparr>userVersion := 2\<rparr> in
                if fails Commit1 then (Some Commit1, disk)
                else (None, view2))))"

text \<open>
  \<open>bootstrapDb\<close> (lines 593-672): \<open>switch userVersion\<close> with \<open>case 0\<close> falling through to
  \<open>case 1\<close>.
\<close>

definition bootstrapDb :: "(dbcall \<Rightarrow> bool) \<Rightarrow> schema \<Rightarrow> dbcall option \<times> schema" where
  "bootstrapDb fails disk =
     (if fails OpenDb then (Some OpenDb, disk)
      else if fails ReadUserVersion then (Some ReadUserVersion, disk)
      else if userVersion disk = 0 then
        (case case0 fails disk of
           (Some e, disk') \<Rightarrow> (Some e, disk')
         | (None, disk') \<Rightarrow> case1 fails disk')
      else if userVersion disk = 1 then case1 fails disk
      else (None, disk))"

section \<open>Properties of the calendar validator\<close>

lemma smod_zero_iff: "(k::int) smod l = 0 \<longleftrightarrow> l dvd k"
proof -
  have "\<bar>k\<bar> mod \<bar>l\<bar> = 0 \<longleftrightarrow> \<bar>l\<bar> dvd \<bar>k\<bar>"
    by (simp add: dvd_eq_mod_eq_0 del: abs_dvd_iff dvd_abs_iff)
  then show ?thesis
    by (auto simp: smod_int_alt_def sgn_if)
qed

lemma isLeapYear_gregorian: "isLeapYear y = gregorianLeap y"
  by (auto simp: isLeapYear_def gregorianLeap_def smod_zero_iff)

lemma month_cases:
  "1 \<le> (m::int) \<Longrightarrow> m \<le> 12 \<Longrightarrow>
   m = 1 \<or> m = 2 \<or> m = 3 \<or> m = 4 \<or> m = 5 \<or> m = 6 \<or> m = 7 \<or> m = 8 \<or> m = 9
   \<or> m = 10 \<or> m = 11 \<or> m = 12"
  by arith

lemma daysInMonths_nth:
  assumes "1 \<le> month" "month \<le> 12"
  shows "daysInMonths year ! nat (month - 1) = dayCount month year"
  using month_cases [OF assms]
  by (elim disjE) (simp_all add: daysInMonths_def dayCount_def isLeapYear_gregorian)

lemma wrap64_id: "- (2 ^ 63) \<le> x \<Longrightarrow> x < 2 ^ 63 \<Longrightarrow> wrap64 x = x"
  by (simp add: wrap64_def)

lemma firstViolated_None_iff:
  "firstViolated day month year hour minute currentYear = None
     \<longleftrightarrow> validDate day month year hour minute currentYear"
  by (auto simp: firstViolated_def validDate_def dayCount_def split: if_splits)

text \<open>
  C4 (as amended). For all non-negative machine integers \<open>day\<close>, \<open>month\<close>, \<open>year\<close>,
  \<open>hour\<close>, \<open>minute\<close> and \<open>currentYear\<close> (with \<open>currentYear + 1\<close> representable),
  \<open>isAbsoluteDateValid\<close> returns without panic, and its result is the contract's:
  ok with the empty message exactly when the date is valid (day within the month's day
  count, month in 1..12, year equal to \<open>currentYear\<close> or \<open>currentYear + 1\<close>, hour in
  1..12, minute in 0..59), and otherwise not ok with the message of the first violated
  rule in the order day bounds, month, day per month, year, hour, minute.
\<close>

theorem isAbsoluteDateValid_contract:
  assumes "0 \<le> day" "0 \<le> month" "0 \<le> year" "0 \<le> hour" "0 \<le> minute" "0 \<le> currentYear"
    and "year \<le> MaxInt64" "currentYear < MaxInt64"
  shows "isAbsoluteDateValid day month year hour minute currentYear
           = Inr (validate_spec day month year hour minute currentYear)
         \<and> (validate_spec day month year hour minute currentYear = ('''', True))
           = validDate day month year hour minute currentYear
         \<and> snd (validate_spec day month year hour minute currentYear)
           = validDate day month year hour minute currentYear"
proof -
  let ?v = "validate_spec day month year hour minute currentYear"
  have diff: "wrap64 (year - currentYear) = year - currentYear"
    using assms by (intro wrap64_id) (simp_all add: MaxInt64_def)
  have succ: "wrap64 (currentYear + 1) = currentYear + 1"
    using assms by (intro wrap64_id) (simp_all add: MaxInt64_def)
  have code: "isAbsoluteDateValid day month year hour minute currentYear = Inr ?v"
  proof (cases "1 \<le> month \<and> month \<le> 12")
    case True
    then have idx: "wrap64 (month - 1) = month - 1"
      by (intro wrap64_id) simp_all
    from True have nth: "daysInMonths year ! nat (month - 1) = dayCount month year"
      by (simp add: daysInMonths_nth)
    from True assms show ?thesis
      by (simp add: isAbsoluteDateValid_def validate_spec_def firstViolated_def ruleMessage_def
            idx nth diff succ Let_def)
  next
    case False
    with assms show ?thesis
      by (auto simp: isAbsoluteDateValid_def validate_spec_def firstViolated_def ruleMessage_def)
  qed
  have ok: "snd ?v = validDate day month year hour minute currentYear"
    using firstViolated_None_iff [of day month year hour minute currentYear]
    by (auto simp: validate_spec_def split: option.splits)
  have "(?v = ('''', True)) = snd ?v"
    by (auto simp: validate_spec_def split: option.splits)
  with code ok show ?thesis by simp
qed

theorem isAbsoluteDateValid_contract_witness:
  "isAbsoluteDateValid 29 2 2024 12 59 2024 = Inr ('''', True)
   \<and> validDate 29 2 2024 12 59 2024
   \<and> isAbsoluteDateValid 30 2 2024 12 59 2024 = Inr (''There aren't 30 days in this month.'', False)
   \<and> \<not> validDate 30 2 2024 12 59 2024"
  using isAbsoluteDateValid_contract [of 29 2 2024 12 59 2024]
        isAbsoluteDateValid_contract [of 30 2 2024 12 59 2024]
  by (simp add: MaxInt64_def validate_spec_def firstViolated_def ruleMessage_def dayCount_def
        gregorianLeap_def showInt_def natDigits.simps digitChar_def)

text \<open>
  The claim as stated, for all inputs, fails below zero: a negative day passes every
  check of the source, which tests \<open>day == 0\<close> and \<open>day > 31\<close> only.
\<close>

theorem isAbsoluteDateValid_negative_day_counterexample:
  "isAbsoluteDateValid (- 1) 1 2024 1 0 2024 = Inr ('''', True)
   \<and> \<not> validDate (- 1) 1 2024 1 0 2024"
  by (simp add: isAbsoluteDateValid_def validDate_def wrap64_def daysInMonths_def Let_def)

section \<open>Properties of the scheduling handlers\<close>

lemma handleAbsoluteRegexMatch_past:
  assumes "absoluteTarget lib flt author now db matches location t" "t < now"
  shows "handleAbsoluteRegexMatch lib flt author now db matches
           = Inr ([''The date cannot be in the past, who would've guessed?''], db)"
  using assms
  by (auto simp add: absoluteTarget_def handleAbsoluteRegexMatch_def to24h_def Let_def split: if_splits)

lemma handleAbsoluteRegexMatch_insert_fails:
  assumes "absoluteTarget lib flt author now db matches location t" "\<not> t < now" "insertFails flt"
  shows "handleAbsoluteRegexMatch lib flt author now db matches
           = Inr ([''Something went wrong while inserting to the DB. Check the stderr output.''], db)"
  using assms
  by (auto simp add: absoluteTarget_def handleAbsoluteRegexMatch_def to24h_def Let_def split: if_splits)

lemma replaceMy_Successfully:
  "replaceMy (''Successfully'' @ s) \<noteq> ''The date cannot be in the past, who would've guessed?''"
  by (subst replaceMy.simps) simp

lemma handleAbsoluteRegexMatch_stored:
  assumes "absoluteTarget lib flt author now db matches location t" "\<not> t < now" "\<not> insertFails flt"
  shows "\<exists>reply. handleAbsoluteRegexMatch lib flt author now db matches
           = Inr ([reply], insertReminder db author t (replaceMy (matches ! 8)) False)
         \<and> reply \<noteq> ''The date cannot be in the past, who would've guessed?''"
  using assms replaceMy_Successfully
  by (auto simp add: absoluteTarget_def handleAbsoluteRegexMatch_def to24h_def Let_def split: if_splits)

lemma handleRecurringRegexMatch_insert_fails:
  assumes "recurringToday lib flt author now db matches location today" "insertFails flt"
  shows "handleRecurringRegexMatch lib flt author now db matches
           = Inr ([''Something went wrong while inserting to the DB. Check the stderr output.''], db)"
  using assms
  by (auto simp add: recurringToday_def handleRecurringRegexMatch_def to24h_def Let_def
        split: prod.splits if_splits)

lemma handleRecurringRegexMatch_stored:
  assumes "recurringToday lib flt author now db matches location today" "\<not> insertFails flt"
  shows "\<exists>reply. handleRecurringRegexMatch lib flt author now db matches
           = Inr ([reply], insertReminder db author (if today < now then addOneDay today else today)
                     (replaceMy (matches ! 5)) True)"
  using assms
  by (auto simp add: recurringToday_def handleRecurringRegexMatch_def to24h_def Let_def
        split: prod.splits if_splits)

text \<open>
  C6. For every Absolute request whose fully resolved target instant \<open>t\<close> is strictly
  before the current instant, the handler replies with the past-date message and leaves
  the store unchanged; a target equal to or after now is not rejected by this rule: the
  handler goes on to the insertion, and unless the insertion fails the store gains the
  non-recurring reminder for \<open>t\<close>.
\<close>

theorem absolute_past_instant_rejected:
  assumes "absoluteTarget lib flt author now db matches location t"
  shows "(t < now \<longrightarrow>
            handleAbsoluteRegexMatch lib flt author now db matches
              = Inr ([''The date cannot be in the past, who would've guessed?''], db))
         \<and> (\<not> t < now \<longrightarrow>
              (if insertFails flt then
                 handleAbsoluteRegexMatch lib flt author now db matches
                   = Inr ([''Something went wrong while inserting to the DB. Check the stderr output.''], db)
               else
                 (\<exists>reply. handleAbsoluteRegexMatch lib flt author now db matches
                     = Inr ([reply], insertReminder db author t (replaceMy (matches ! 8)) False)
                   \<and> reply \<noteq> ''The date cannot be in the past, who would've guessed?'')))"
  using handleAbsoluteRegexMatch_past [OF assms]
        handleAbsoluteRegexMatch_insert_fails [OF assms]
        handleAbsoluteRegexMatch_stored [OF assms]
  by auto

lemma example_absolute_0959:
  "absoluteTarget utcHost noFaults ''alice'' 1718445600000000000 \<lparr>reminders = [], preferences = []\<rparr>
     [''!remindme on 15.6 at 9:59 AM Etc/UTC to check my mail'', ''15'', ''6'', '''', ''9'', ''59'',
      ''AM'', ''Etc/UTC'', ''to check my mail'']
     ''Etc/UTC'' 1718445540000000000"
  by code_simp

lemma example_absolute_1000:
  "absoluteTarget utcHost noFaults ''alice'' 1718445600000000000 \<lparr>reminders = [], preferences = []\<rparr>
     [''!remindme on 15.6 at 10 AM Etc/UTC to check my mail'', ''15'', ''6'', '''', ''10'', '''',
      ''AM'', ''Etc/UTC'', ''to check my mail'']
     ''Etc/UTC'' 1718445600000000000"
  by code_simp

theorem absolute_past_instant_rejected_witness:
  "absoluteTarget utcHost noFaults ''alice'' 1718445600000000000 \<lparr>reminders = [], preferences = []\<rparr>
     [''!remindme on 15.6 at 9:59 AM Etc/UTC to check my mail'', ''15'', ''6'', '''', ''9'', ''59'',
      ''AM'', ''Etc/UTC'', ''to check my mail'']
     ''Etc/UTC'' 1718445540000000000
   \<and> handleAbsoluteRegexMatch utcHost noFaults ''alice'' 1718445600000000000
       \<lparr>reminders = [], preferences = []\<rparr>
       [''!remindme on 15.6 at 9:59 AM Etc/UTC to check my mail'', ''15'', ''6'', '''', ''9'', ''59'',
        ''AM'', ''Etc/UTC'', ''to check my mail'']
     = Inr ([''The date cannot be in the past, who would've guessed?''],
            \<lparr>reminders = [], preferences = []\<rparr>)
   \<and> absoluteTarget utcHost noFaults ''alice'' 1718445600000000000 \<lparr>reminders = [], preferences = []\<rparr>
     [''!remindme on 15.6 at 10 AM Etc/UTC to check my mail'', ''15'', ''6'', '''', ''10'', '''',
      ''AM'', ''Etc/UTC'', ''to check my mail'']
     ''Etc/UTC'' 1718445600000000000
   \<and> (\<exists>reply. handleAbsoluteRegexMatch utcHost noFaults ''alice'' 1718445600000000000
         \<lparr>reminders = [], preferences = []\<rparr>
         [''!remindme on 15.6 at 10 AM Etc/UTC to check my mail'', ''15'', ''6'', '''', ''10'', '''',
          ''AM'', ''Etc/UTC'', ''to check my mail'']
       = Inr ([reply],
           \<lparr>reminders = [\<lparr>rId = 1, rWho = ''alice'', rTime = 1718445600000000000,
                           rToRemind = ''to check your mail'', rRecurring = False\<rparr>],
            preferences = []\<rparr>))"
proof -
  let ?db = "\<lparr>reminders = [], preferences = []\<rparr>"
  have ok: "\<not> insertFails noFaults"
    by (simp add: noFaults_def)
  have row: "insertReminder ?db ''alice'' 1718445600000000000 (replaceMy ''to check my mail'') False
               = \<lparr>reminders = [\<lparr>rId = 1, rWho = ''alice'', rTime = 1718445600000000000,
                     rToRemind = ''to check your mail'', rRecurring = False\<rparr>],
                  preferences = []\<rparr>"
    by code_simp
  have past: "(1718445540000000000::int) < 1718445600000000000"
    by simp
  show ?thesis
    using absolute_past_instant_rejected [OF example_absolute_0959]
          absolute_past_instant_rejected [OF example_absolute_1000]
          example_absolute_0959 example_absolute_1000 ok row past
    by auto
qed





text \<open>
  C9. Both the Absolute and the Recurring handler store the instant that the time library
  reads from the request's date with the hour converted as the specification says
  (\<open>to24h\<close>, inside \<open>absoluteTarget\<close> and \<open>recurringToday\<close>): 0 for AM and hour 12,
  hour + 12 for PM and an hour below 12, the hour unchanged otherwise. For a validated
  hour (1 to 12) the converted value is an hour of the 24-hour clock, and (12, AM) gives
  0, (12, PM) gives 12, (5, AM) gives 5, (5, PM) gives 17.
\<close>

theorem hour_conversion_in_both_paths:
  "(absoluteTarget lib flt author now db ma la t \<and> \<not> t < now \<and> \<not> insertFails flt \<longrightarrow>
      (\<exists>reply. handleAbsoluteRegexMatch lib flt author now db ma
         = Inr ([reply], insertReminder db author t (replaceMy (ma ! 8)) False)))
   \<and> (recurringToday lib flt author now db mr lr today \<and> \<not> insertFails flt \<longrightarrow>
      (\<exists>reply. handleRecurringRegexMatch lib flt author now db mr
         = Inr ([reply], insertReminder db author (if today < now then addOneDay today else today)
                  (replaceMy (mr ! 5)) True)))
   \<and> (1 \<le> hour \<and> hour \<le> 12 \<longrightarrow> 0 \<le> to24h period hour \<and> to24h period hour \<le> 23)
   \<and> to24h ''AM'' 12 = 0 \<and> to24h ''PM'' 12 = 12 \<and> to24h ''AM'' 5 = 5 \<and> to24h ''PM'' 5 = 17"
proof -
  have "\<exists>reply. handleAbsoluteRegexMatch lib flt author now db ma
         = Inr ([reply], insertReminder db author t (replaceMy (ma ! 8)) False)"
    if "absoluteTarget lib flt author now db ma la t" "\<not> t < now" "\<not> insertFails flt"
    using handleAbsoluteRegexMatch_stored [OF that] by blast
  moreover have "\<exists>reply. handleRecurringRegexMatch lib flt author now db mr
         = Inr ([reply], insertReminder db author (if today < now then addOneDay today else today)
                  (replaceMy (mr ! 5)) True)"
    if "recurringToday lib flt author now db mr lr today" "\<not> insertFails flt"
    using handleRecurringRegexMatch_stored [OF that] .
  moreover have "0 \<le> to24h period hour \<and> to24h period hour \<le> 23" if "1 \<le> hour" "hour \<le> 12"
    using that by (simp add: to24h_def)
  moreover have "to24h ''AM'' 12 = 0 \<and> to24h ''PM'' 12 = 12 \<and> to24h ''AM'' 5 = 5 \<and> to24h ''PM'' 5 = 17"
    by (simp add: to24h_def)
  ultimately show ?thesis by blast
qed

lemma example_absolute_5pm:
  "absoluteTarget utcHost noFaults ''alice'' 1718445600000000000 \<lparr>reminders = [], preferences = []\<rparr>
     [''!remindme on 15.6 at 5 PM Etc/UTC to go home'', ''15'', ''6'', '''', ''5'', '''',
      ''PM'', ''Etc/UTC'', ''to go home'']
     ''Etc/UTC'' 1718470800000000000"
  by code_simp

lemma example_recurring_midnight:
  "recurringToday utcHost noFaults ''alice'' 1718445600000000000 \<lparr>reminders = [], preferences = []\<rparr>
     [''!remindme every day at 12 AM Etc/UTC to go to bed'', ''12'', '''', ''AM'', ''Etc/UTC'',
      ''to go to bed'']
     ''Etc/UTC'' 1718409600000000000"
  by code_simp

theorem hour_conversion_in_both_paths_witness:
  "absoluteTarget utcHost noFaults ''alice'' 1718445600000000000 \<lparr>reminders = [], preferences = []\<rparr>
     [''!remindme on 15.6 at 5 PM Etc/UTC to go home'', ''15'', ''6'', '''', ''5'', '''',
      ''PM'', ''Etc/UTC'', ''to go home'']
     ''Etc/UTC'' 1718470800000000000
   \<and> utcParse ''Etc/UTC'' ''2024-06-15 17:00:00'' = Some 1718470800000000000
   \<and> (\<exists>reply. handleAbsoluteRegexMatch utcHost noFaults ''alice'' 1718445600000000000
         \<lparr>reminders = [], preferences = []\<rparr>
         [''!remindme on 15.6 at 5 PM Etc/UTC to go home'', ''15'', ''6'', '''', ''5'', '''',
          ''PM'', ''Etc/UTC'', ''to go home'']
       = Inr ([reply],
           \<lparr>reminders = [\<lparr>rId = 1, rWho = ''alice'', rTime = 1718470800000000000,
                           rToRemind = ''to go home'', rRecurring = False\<rparr>],
            preferences = []\<rparr>))
   \<and> recurringToday utcHost noFaults ''alice'' 1718445600000000000 \<lparr>reminders = [], preferences = []\<rparr>
     [''!remindme every day at 12 AM Etc/UTC to go to bed'', ''12'', '''', ''AM'', ''Etc/UTC'',
      ''to go to bed'']
     ''Etc/UTC'' 1718409600000000000
   \<and> utcParse ''Etc/UTC'' ''2024-06-15 00:00:00'' = Some 1718409600000000000
   \<and> (\<exists>reply. handleRecurringRegexMatch utcHost noFaults ''alice'' 1718445600000000000
         \<lparr>reminders = [], preferences = []\<rparr>
         [''!remindme every day at 12 AM Etc/UTC to go to bed'', ''12'', '''', ''AM'', ''Etc/UTC'',
          ''to go to bed'']
       = Inr ([reply],
           \<lparr>reminders = [\<lparr>rId = 1, rWho = ''alice'', rTime = 1718496000000000000,
                           rToRemind = ''to go to bed'', rRecurring = True\<rparr>],
            preferences = []\<rparr>))
   \<and> 0 \<le> to24h ''PM'' 11 \<and> to24h ''PM'' 11 \<le> 23"
proof -
  let ?db = "\<lparr>reminders = [], preferences = []\<rparr>"
  have ok: "\<not> insertFails noFaults"
    by (simp add: noFaults_def)
  have later: "\<not> (1718470800000000000::int) < 1718445600000000000"
    by simp
  have rowA: "insertReminder ?db ''alice'' 1718470800000000000 (replaceMy ''to go home'') False
               = \<lparr>reminders = [\<lparr>rId = 1, rWho = ''alice'', rTime = 1718470800000000000,
                     rToRemind = ''to go home'', rRecurring = False\<rparr>],
                  preferences = []\<rparr>"
    by code_simp
  have rowR: "insertReminder ?db ''alice''
                 (if (1718409600000000000::int) < 1718445600000000000
                  then addOneDay 1718409600000000000 else 1718409600000000000)
                 (replaceMy ''to go to bed'') True
               = \<lparr>reminders = [\<lparr>rId = 1, rWho = ''alice'', rTime = 1718496000000000000,
                     rToRemind = ''to go to bed'', rRecurring = True\<rparr>],
                  preferences = []\<rparr>"
    by code_simp
  have p17: "utcParse ''Etc/UTC'' ''2024-06-15 17:00:00'' = Some 1718470800000000000"
    by code_simp
  have p00: "utcParse ''Etc/UTC'' ''2024-06-15 00:00:00'' = Some 1718409600000000000"
    by code_simp
  have eleven: "(1::int) \<le> 11 \<and> (11::int) \<le> 12"
    by simp
  show ?thesis
    using hour_conversion_in_both_paths [of utcHost noFaults "''alice''" 1718445600000000000 ?db
            "[''!remindme on 15.6 at 5 PM Etc/UTC to go home'', ''15'', ''6'', '''', ''5'', '''',
              ''PM'', ''Etc/UTC'', ''to go home'']" "''Etc/UTC''" 1718470800000000000
            "[''!remindme every day at 12 AM Etc/UTC to go to bed'', ''12'', '''', ''AM'', ''Etc/UTC'',
              ''to go to bed'']" "''Etc/UTC''" 1718409600000000000 11 "''PM''"]
          example_absolute_5pm example_recurring_midnight ok later rowA rowR p17 p00 eleven
    by auto
qed

section \<open>Properties of the timezone resolver\<close>

text \<open>
  With a preference lookup that does not fail, the resolver follows the precedence of
  its comment: the explicit zone, else the stored preference, else \<open>Europe/Warsaw\<close>; an
  unknown name is an error of \<open>LoadLocation\<close>.
\<close>

lemma resolveLocation_precedence:
  assumes "\<not> prefQueryFails flt"
  shows "resolveLocation lib flt db author explicitZone =
           LoadLocation lib
             (if explicitZone \<noteq> '''' then explicitZone
              else case filter (\<lambda>p. pWho p = author) (preferences db) of
                     [] \<Rightarrow> ''Europe/Warsaw''
                   | p # _ \<Rightarrow> pTimezonePreference p)"
  using assms
  by (simp add: resolveLocation_def queryPreference_def split: list.splits)

text \<open>
  C3 (the code departs from the claim). When the preference lookup fails with an error
  other than \<open>sql.ErrNoRows\<close> and no zone is given, \<open>resolveLocation\<close> returns the
  location UTC and no error: neither the stored preference nor \<open>Europe/Warsaw\<close>, and not
  the error the claim requires.
\<close>

theorem resolveLocation_failed_lookup_substitutes_UTC:
  "resolveLocation lib (flt\<lparr>prefQueryFails := True\<rparr>) db author '''' = Inr ''UTC''"
  by (simp add: resolveLocation_def queryPreference_def LoadLocation_def)

section \<open>Properties of the removal handler\<close>

lemma filter_rId_unique:
  assumes "distinct (map rId rows)" "r \<in> set rows"
  shows "filter (\<lambda>x. rId x = rId r) rows = [r]"
  using assms
proof (induction rows)
  case Nil
  then show ?case by simp
next
  case (Cons a rows)
  show ?case
  proof (cases "a = r")
    case True
    with Cons.prems have "\<forall>x\<in>set rows. rId x \<noteq> rId r"
      by (auto simp: image_iff)
    then have "filter (\<lambda>x. rId x = rId r) rows = []"
      by (simp add: filter_empty_conv)
    with True show ?thesis by simp
  next
    case False
    with Cons.prems have "r \<in> set rows" "rId a \<noteq> rId r"
      by (auto simp: image_iff)
    with Cons show ?thesis by simp
  qed
qed

lemma filter_rId_remove1:
  assumes "distinct (map rId rows)" "r \<in> set rows"
  shows "filter (\<lambda>x. rId x \<noteq> rId r) rows = remove1 r rows"
  using assms
proof (induction rows)
  case Nil
  then show ?case by simp
next
  case (Cons a rows)
  show ?case
  proof (cases "a = r")
    case True
    with Cons.prems have "\<forall>x\<in>set rows. rId x \<noteq> rId r"
      by (auto simp: image_iff)
    then have "filter (\<lambda>x. rId x \<noteq> rId r) rows = rows"
      by (simp add: filter_id_conv)
    with True show ?thesis by simp
  next
    case False
    with Cons.prems have "r \<in> set rows" "rId a \<noteq> rId r"
      by (auto simp: image_iff)
    with Cons False show ?thesis by simp
  qed
qed

lemma queryWho_found:
  assumes "distinct (map rId (reminders db))" "r \<in> set (reminders db)" "\<not> lookupFails flt"
  shows "queryWho flt db (rId r) = Row (rWho r)"
  using assms by (simp add: queryWho_def filter_rId_unique)

text \<open>
  C7 (as amended). For every removal request, with ids unique in the table and a lookup
  that does not fail: an id above 4294967295 gets the too-big reply and nothing changes;
  otherwise, if no reminder has the id, the requester gets the nonexistent-id reply and
  nothing changes; if the reminder belongs to another user, the requester gets the
  someone-else reply and the row remains; if the requester owns it and the \<open>DELETE\<close> does
  not fail, the reply is the success reply and exactly that row is removed.
\<close>

theorem rmreminder_owner_only:
  assumes "length matches = 2" "i = Atoi (matches ! 1)" "distinct (map rId (reminders db))"
    and "\<not> lookupFails flt"
  shows "(MaxUint32 < i \<longrightarrow>
            handleRmreminderRegexMatch flt author db matches
              = Inr ([''The ID is too big, has to be between 0 and 4294967295.''], db))
       \<and> (i \<le> MaxUint32 \<and> i \<notin> rId ` set (reminders db) \<longrightarrow>
            handleRmreminderRegexMatch flt author db matches
              = Inr ([''There isn't a reminder with that ID. Make sure you provided the correct one.''], db))
       \<and> (\<forall>r. i \<le> MaxUint32 \<and> r \<in> set (reminders db) \<and> rId r = i \<and> rWho r \<noteq> author \<longrightarrow>
            handleRmreminderRegexMatch flt author db matches
              = Inr ([''You cannot remove someone else's reminders!''], db))
       \<and> (\<forall>r. i \<le> MaxUint32 \<and> r \<in> set (reminders db) \<and> rId r = i \<and> rWho r = author
               \<and> \<not> deleteFails flt \<longrightarrow>
            handleRmreminderRegexMatch flt author db matches
              = Inr ([''Successfully deleted the reminder.''],
                     db\<lparr>reminders := remove1 r (reminders db)\<rparr>))"
proof -
  let ?h = "handleRmreminderRegexMatch flt author db matches"
  have len: "\<not> length matches < 2"
    using assms(1) by simp
  have big: "showInt MaxUint32 = ''4294967295''"
    by (simp add: showInt_def MaxUint32_def natDigits.simps digitChar_def)
  have c1: "?h = Inr ([''The ID is too big, has to be between 0 and 4294967295.''], db)"
    if "MaxUint32 < i"
    using that assms(2) len big by (simp add: handleRmreminderRegexMatch_def Let_def)
  have c2: "?h = Inr ([''There isn't a reminder with that ID. Make sure you provided the correct one.''], db)"
    if "i \<le> MaxUint32" "i \<notin> rId ` set (reminders db)"
  proof -
    from that(2) have "filter (\<lambda>r. rId r = i) (reminders db) = []"
      by (auto simp: filter_empty_conv)
    with assms(4) have "queryWho flt db i = ErrNoRows"
      by (simp add: queryWho_def)
    with that(1) assms(2) len show ?thesis
      by (simp add: handleRmreminderRegexMatch_def Let_def)
  qed
  have found: "queryWho flt db i = Row (rWho r)" if "r \<in> set (reminders db)" "rId r = i" for r
    using queryWho_found [OF assms(3) that(1) assms(4)] that(2) by simp
  have c3: "?h = Inr ([''You cannot remove someone else's reminders!''], db)"
    if "i \<le> MaxUint32" "r \<in> set (reminders db)" "rId r = i" "rWho r \<noteq> author" for r
    using found [OF that(2,3)] that(1,4) assms(2) len
    by (auto simp: handleRmreminderRegexMatch_def Let_def)
  have c4: "?h = Inr ([''Successfully deleted the reminder.''], db\<lparr>reminders := remove1 r (reminders db)\<rparr>)"
    if "i \<le> MaxUint32" "r \<in> set (reminders db)" "rId r = i" "rWho r = author" "\<not> deleteFails flt" for r
  proof -
    have "deleteReminder db i = db\<lparr>reminders := remove1 r (reminders db)\<rparr>"
      using filter_rId_remove1 [OF assms(3) that(2)] that(3) by (simp add: deleteReminder_def)
    with found [OF that(2,3)] that(1,4,5) assms(2) len show ?thesis
      by (auto simp: handleRmreminderRegexMatch_def Let_def)
  qed
  from c1 c2 c3 c4 show ?thesis by blast
qed

lemma example_ids:
  "Atoi ''1'' = 1" "Atoi ''7'' = 7" "Atoi ''4294967296'' = 4294967296"
  by (simp_all add: Atoi_def decimal_def isDigit_def digitValue_def MaxInt64_def)

theorem rmreminder_owner_only_witness:
  "handleRmreminderRegexMatch noFaults ''alice''
     \<lparr>reminders = [\<lparr>rId = 1, rWho = ''alice'', rTime = 100, rToRemind = ''to stretch'', rRecurring = False\<rparr>,
                   \<lparr>rId = 2, rWho = ''bob'', rTime = 200, rToRemind = ''to call home'', rRecurring = True\<rparr>],
      preferences = []\<rparr>
     [''!rmreminder 1'', ''1'']
   = Inr ([''Successfully deleted the reminder.''],
          \<lparr>reminders = [\<lparr>rId = 2, rWho = ''bob'', rTime = 200, rToRemind = ''to call home'', rRecurring = True\<rparr>],
           preferences = []\<rparr>)
   \<and> handleRmreminderRegexMatch noFaults ''bob''
     \<lparr>reminders = [\<lparr>rId = 1, rWho = ''alice'', rTime = 100, rToRemind = ''to stretch'', rRecurring = False\<rparr>,
                   \<lparr>rId = 2, rWho = ''bob'', rTime = 200, rToRemind = ''to call home'', rRecurring = True\<rparr>],
      preferences = []\<rparr>
     [''!rmreminder 1'', ''1'']
   = Inr ([''You cannot remove someone else's reminders!''],
          \<lparr>reminders = [\<lparr>rId = 1, rWho = ''alice'', rTime = 100, rToRemind = ''to stretch'', rRecurring = False\<rparr>,
                        \<lparr>rId = 2, rWho = ''bob'', rTime = 200, rToRemind = ''to call home'', rRecurring = True\<rparr>],
           preferences = []\<rparr>)
   \<and> handleRmreminderRegexMatch noFaults ''alice''
     \<lparr>reminders = [\<lparr>rId = 1, rWho = ''alice'', rTime = 100, rToRemind = ''to stretch'', rRecurring = False\<rparr>,
                   \<lparr>rId = 2, rWho = ''bob'', rTime = 200, rToRemind = ''to call home'', rRecurring = True\<rparr>],
      preferences = []\<rparr>
     [''!rmreminder 7'', ''7'']
   = Inr ([''There isn't a reminder with that ID. Make sure you provided the correct one.''],
          \<lparr>reminders = [\<lparr>rId = 1, rWho = ''alice'', rTime = 100, rToRemind = ''to stretch'', rRecurring = False\<rparr>,
                        \<lparr>rId = 2, rWho = ''bob'', rTime = 200, rToRemind = ''to call home'', rRecurring = True\<rparr>],
           preferences = []\<rparr>)"
proof -
  let ?r1 = "\<lparr>rId = 1, rWho = ''alice'', rTime = 100, rToRemind = ''to stretch'', rRecurring = False\<rparr>"
  let ?r2 = "\<lparr>rId = 2, rWho = ''bob'', rTime = 200, rToRemind = ''to call home'', rRecurring = True\<rparr>"
  let ?db = "\<lparr>reminders = [?r1, ?r2], preferences = []\<rparr>"
  have ok: "\<not> lookupFails noFaults" "\<not> deleteFails noFaults"
    by (simp_all add: noFaults_def)
  have ids: "distinct (map rId (reminders ?db))"
    by simp
  have small: "(1::int) \<le> MaxUint32" "(7::int) \<le> MaxUint32"
    by (simp_all add: MaxUint32_def)
  have len: "length [''!rmreminder 1'', ''1''] = 2" "length [''!rmreminder 7'', ''7''] = 2"
    by simp_all
  have at1: "(1::int) = Atoi ([''!rmreminder 1'', ''1''] ! 1)"
    and at7: "(7::int) = Atoi ([''!rmreminder 7'', ''7''] ! 1)"
    by (simp_all add: example_ids)
  have a: "handleRmreminderRegexMatch noFaults ''alice'' ?db [''!rmreminder 1'', ''1'']
             = Inr ([''Successfully deleted the reminder.''], ?db\<lparr>reminders := remove1 ?r1 (reminders ?db)\<rparr>)"
    using rmreminder_owner_only [OF len(1) at1 ids ok(1), of "''alice''",
            THEN conjunct2, THEN conjunct2, THEN conjunct2, THEN spec, of ?r1] ok small
    by simp
  have b: "handleRmreminderRegexMatch noFaults ''bob'' ?db [''!rmreminder 1'', ''1'']
             = Inr ([''You cannot remove someone else's reminders!''], ?db)"
    using rmreminder_owner_only [OF len(1) at1 ids ok(1), of "''bob''",
            THEN conjunct2, THEN conjunct2, THEN conjunct1, THEN spec, of ?r1] small
    by simp
  have c: "handleRmreminderRegexMatch noFaults ''alice'' ?db [''!rmreminder 7'', ''7'']
             = Inr ([''There isn't a reminder with that ID. Make sure you provided the correct one.''], ?db)"
    using rmreminder_owner_only [OF len(2) at7 ids ok(1), of "''alice''",
            THEN conjunct2, THEN conjunct1] small
    by simp
  from a b c show ?thesis by simp
qed

text \<open>
  The claim as stated fails for an id above 4294967295: no reminder has that id, and the
  requester gets the too-big reply, not the nonexistent-id reply.
\<close>

theorem rmreminder_too_big_counterexample:
  "Atoi ''4294967296'' \<notin> rId ` set (reminders \<lparr>reminders = [], preferences = []\<rparr>)
   \<and> handleRmreminderRegexMatch noFaults ''alice'' \<lparr>reminders = [], preferences = []\<rparr>
       [''!rmreminder 4294967296'', ''4294967296'']
     = Inr ([''The ID is too big, has to be between 0 and 4294967295.''],
            \<lparr>reminders = [], preferences = []\<rparr>)
   \<and> handleRmreminderRegexMatch noFaults ''alice'' \<lparr>reminders = [], preferences = []\<rparr>
       [''!rmreminder 4294967296'', ''4294967296'']
     \<noteq> Inr ([''There isn't a reminder with that ID. Make sure you provided the correct one.''],
            \<lparr>reminders = [], preferences = []\<rparr>)"
proof -
  have big: "showInt MaxUint32 = ''4294967295''"
    by (simp add: showInt_def MaxUint32_def natDigits.simps digitChar_def)
  show ?thesis
    by (simp add: handleRmreminderRegexMatch_def Let_def example_ids big) (simp add: MaxUint32_def)
qed

text \<open>
  C10. For every removal request where the requester owns the reminder with the requested
  id (an id of the table, at most 4294967295; the lookup succeeds), the last reply of the
  handler is "Successfully deleted the reminder.", whether the \<open>DELETE\<close> succeeds or not.
  When the \<open>DELETE\<close> fails the handler sends the failure reply and then the success
  reply, and the row is still in the store.
\<close>

theorem rmreminder_success_reply_unconditional:
  assumes "length matches = 2" "rId r = Atoi (matches ! 1)" "r \<in> set (reminders db)"
    and "rWho r = author" "rId r \<le> MaxUint32" "distinct (map rId (reminders db))"
    and "\<not> lookupFails flt"
  shows "(\<exists>replies db'. handleRmreminderRegexMatch flt author db matches = Inr (replies, db')
            \<and> replies \<noteq> [] \<and> last replies = ''Successfully deleted the reminder.'')
       \<and> (deleteFails flt \<longrightarrow>
            handleRmreminderRegexMatch flt author db matches
              = Inr ([''Something went wrong while deleting the reminder. Check the stderr output.'',
                      ''Successfully deleted the reminder.''], db)
            \<and> r \<in> set (reminders db))"
proof -
  have "queryWho flt db (Atoi (matches ! 1)) = Row author"
    using queryWho_found [OF assms(6) assms(3) assms(7)] assms(2,4) by simp
  moreover have "\<not> length matches < 2" "\<not> Atoi (matches ! 1) > MaxUint32"
    using assms(1,2,5) by simp_all
  ultimately show ?thesis
    using assms(3) by (simp add: handleRmreminderRegexMatch_def Let_def)
qed

theorem rmreminder_success_reply_unconditional_witness:
  "handleRmreminderRegexMatch (noFaults\<lparr>deleteFails := True\<rparr>) ''alice''
     \<lparr>reminders = [\<lparr>rId = 1, rWho = ''alice'', rTime = 100, rToRemind = ''to stretch'', rRecurring = False\<rparr>],
      preferences = []\<rparr>
     [''!rmreminder 1'', ''1'']
   = Inr ([''Something went wrong while deleting the reminder. Check the stderr output.'',
           ''Successfully deleted the reminder.''],
          \<lparr>reminders = [\<lparr>rId = 1, rWho = ''alice'', rTime = 100, rToRemind = ''to stretch'', rRecurring = False\<rparr>],
           preferences = []\<rparr>)"
proof -
  let ?r1 = "\<lparr>rId = 1, rWho = ''alice'', rTime = 100, rToRemind = ''to stretch'', rRecurring = False\<rparr>"
  let ?db = "\<lparr>reminders = [?r1], preferences = []\<rparr>"
  let ?flt = "noFaults\<lparr>deleteFails := True\<rparr>"
  have len: "length [''!rmreminder 1'', ''1''] = 2"
    by simp
  have at1: "rId ?r1 = Atoi ([''!rmreminder 1'', ''1''] ! 1)"
    by (simp add: example_ids)
  have mem: "?r1 \<in> set (reminders ?db)" and own: "rWho ?r1 = ''alice''"
    and small: "rId ?r1 \<le> MaxUint32" and ids: "distinct (map rId (reminders ?db))"
    and ok: "\<not> lookupFails ?flt" and fails: "deleteFails ?flt"
    by (simp_all add: MaxUint32_def noFaults_def)
  show ?thesis
    using rmreminder_success_reply_unconditional [OF len at1 mem own small ids ok] fails
    by simp
qed

section \<open>Properties of the sweeper\<close>

lemma scanRows_eq:
  "scanRows now rows s d u =
     (s @ map reminderMessage (filter (\<lambda>r. rTime r < now) rows),
      d @ map rId (filter (\<lambda>r. rTime r < now \<and> \<not> rRecurring r) rows),
      u @ map (\<lambda>r. \<lparr>uId = rId r, uNewTime = addOneDay (rTime r), uWho = rWho r\<rparr>)
            (filter (\<lambda>r. rTime r < now \<and> rRecurring r) rows))"
  by (induction rows arbitrary: s d u) auto

text \<open>The effect of a list of updates on one row.\<close>

lemma applyUpdates_rowwise:
  assumes "\<forall>i. \<not> fails i"
  shows "applyUpdates fails us rows msgs =
           (map (\<lambda>r. fold (\<lambda>u r. if rId r = uId u then r\<lparr>rTime := uNewTime u\<rparr> else r) us r) rows, msgs)"
  using assms
proof (induction us arbitrary: rows)
  case Nil
  then show ?case by simp
next
  case (Cons u us)
  then show ?case by (simp add: comp_def)
qed

lemma fold_update_other:
  assumes "rId r \<notin> rId ` set src"
  shows "fold (\<lambda>u r. if rId r = uId u then r\<lparr>rTime := uNewTime u\<rparr> else r)
           (map (\<lambda>r. \<lparr>uId = rId r, uNewTime = addOneDay (rTime r), uWho = rWho r\<rparr>) (filter P src)) r = r"
  using assms by (induction src arbitrary: r) auto

lemma fold_update_member:
  assumes "distinct (map rId src)" "r \<in> set src"
  shows "fold (\<lambda>u r. if rId r = uId u then r\<lparr>rTime := uNewTime u\<rparr> else r)
           (map (\<lambda>r. \<lparr>uId = rId r, uNewTime = addOneDay (rTime r), uWho = rWho r\<rparr>) (filter P src)) r
         = (if P r then r\<lparr>rTime := addOneDay (rTime r)\<rparr> else r)"
  using assms
proof (induction src)
  case Nil
  then show ?case by simp
next
  case (Cons x src)
  show ?case
  proof (cases "r = x")
    case True
    from Cons.prems have "rId x \<notin> rId ` set src" by simp
    then have "rId (x\<lparr>rTime := addOneDay (rTime x)\<rparr>) \<notin> rId ` set src" by simp
    from fold_update_other [OF this, of P] fold_update_other [OF \<open>rId x \<notin> rId ` set src\<close>, of P]
    show ?thesis using True by simp
  next
    case False
    with Cons.prems have "r \<in> set src" "rId r \<noteq> rId x" "distinct (map rId src)"
      by (auto simp: image_iff)
    with Cons.IH show ?thesis by simp
  qed
qed

lemma rId_in_filtered:
  assumes "distinct (map rId rows)" "r \<in> set rows"
  shows "rId r \<in> set (map rId (filter P rows)) \<longleftrightarrow> P r"
proof -
  from assms(1) have "inj_on rId (set rows)"
    by (simp add: distinct_map)
  with assms(2) show ?thesis
    by (auto simp: inj_on_def)
qed

lemma sweepTick_ok:
  assumes "tickOk t" "distinct (map rId (reminders db))"
  shows "sweepTick t db =
     Inr \<lparr>sent = map reminderMessage (filter (\<lambda>r. rTime r < currentTime t) (reminders db)),
          rowsToDelete = map rId (filter (\<lambda>r. rTime r < currentTime t \<and> \<not> rRecurring r) (reminders db)),
          rowsToUpdate = map (\<lambda>r. \<lparr>uId = rId r, uNewTime = addOneDay (rTime r), uWho = rWho r\<rparr>)
                           (filter (\<lambda>r. rTime r < currentTime t \<and> rRecurring r) (reminders db)),
          storeAfter = db\<lparr>reminders :=
            map (\<lambda>r. if rTime r < currentTime t then r\<lparr>rTime := addOneDay (rTime r)\<rparr> else r)
              (filter (\<lambda>r. rRecurring r \<or> \<not> rTime r < currentTime t) (reminders db))\<rparr>\<rparr>"
proof -
  let ?now = "currentTime t" and ?rows = "reminders db"
  let ?del = "map rId (filter (\<lambda>r. rTime r < ?now \<and> \<not> rRecurring r) ?rows)"
  let ?upd = "map (\<lambda>r. \<lparr>uId = rId r, uNewTime = addOneDay (rTime r), uWho = rWho r\<rparr>)
                (filter (\<lambda>r. rTime r < ?now \<and> rRecurring r) ?rows)"
  let ?kept = "filter (\<lambda>r. rRecurring r \<or> \<not> rTime r < ?now) ?rows"
  from assms(1) have ok: "\<not> dbFileMissing t" "\<not> selectFails t" "\<not> batchDeleteFails t"
    "\<forall>i. \<not> updateFails t i"
    by (simp_all add: tickOk_def)
  have kept: "filter (\<lambda>r. rId r \<notin> set ?del) ?rows = ?kept"
  proof (rule filter_cong [OF refl])
    fix r assume "r \<in> set ?rows"
    from rId_in_filtered [OF assms(2) this, of "\<lambda>r. rTime r < ?now \<and> \<not> rRecurring r"]
    show "(rId r \<notin> set ?del) = (rRecurring r \<or> \<not> rTime r < ?now)" by auto
  qed
  have upd: "map (\<lambda>r. fold (\<lambda>u r. if rId r = uId u then r\<lparr>rTime := uNewTime u\<rparr> else r) ?upd r) ?kept
             = map (\<lambda>r. if rTime r < ?now then r\<lparr>rTime := addOneDay (rTime r)\<rparr> else r) ?kept"
  proof (rule map_cong [OF refl])
    fix r assume "r \<in> set ?kept"
    then have "r \<in> set ?rows" "rRecurring r \<or> \<not> rTime r < ?now" by auto
    with fold_update_member [OF assms(2) this(1), of "\<lambda>r. rTime r < ?now \<and> rRecurring r"]
    show "fold (\<lambda>u r. if rId r = uId u then r\<lparr>rTime := uNewTime u\<rparr> else r) ?upd r
          = (if rTime r < ?now then r\<lparr>rTime := addOneDay (rTime r)\<rparr> else r)"
      by auto
  qed
  show ?thesis
    using ok kept upd
    by (simp add: sweepTick_def scanRows_eq applyUpdates_rowwise)
qed

text \<open>Each fired row is sent one message: on such a tick the three lists agree in length.\<close>

lemma length_filter_split:
  "length (filter P xs) = length (filter (\<lambda>x. P x \<and> \<not> Q x) xs) + length (filter (\<lambda>x. P x \<and> Q x) xs)"
  by (induction xs) auto

lemma one_message_per_fired_row:
  assumes "tickOk t" "distinct (map rId (reminders db))" "sweepTick t db = Inr res"
  shows "length (sent res) = length (rowsToDelete res) + length (rowsToUpdate res)"
  using sweepTick_ok [OF assms(1,2)] assms(3)
        length_filter_split [of "\<lambda>r. rTime r < currentTime t" "reminders db" rRecurring]
  by auto

text \<open>
  C1 (as amended). On every sweeper tick at which the database file exists and the
  statements succeed, with ids unique in the table: exactly the pending reminders whose
  stored time is strictly before the tick's instant are dispatched, in table order; every
  fired non-recurring reminder is removed from the store; every fired recurring reminder
  remains, its time advanced by exactly one calendar day from its value before the tick;
  the reminders not yet due, and the timezone preferences, are unchanged.
\<close>

theorem sweep_correctness:
  assumes "tickOk t" "distinct (map rId (reminders db))"
  shows "\<exists>res. sweepTick t db = Inr res
           \<and> sent res = map reminderMessage (filter (\<lambda>r. rTime r < currentTime t) (reminders db))
           \<and> reminders (storeAfter res) =
               map (\<lambda>r. if rTime r < currentTime t then r\<lparr>rTime := addOneDay (rTime r)\<rparr> else r)
                 (filter (\<lambda>r. rRecurring r \<or> \<not> rTime r < currentTime t) (reminders db))
           \<and> preferences (storeAfter res) = preferences db"
  using sweepTick_ok [OF assms] by simp

theorem sweep_correctness_witness:
  "\<exists>res. sweepTick \<lparr>currentTime = 1000, dbFileMissing = False, selectFails = False,
                     batchDeleteFails = False, updateFails = (\<lambda>i. False)\<rparr>
            \<lparr>reminders =
               [\<lparr>rId = 1, rWho = ''alice'', rTime = 900, rToRemind = ''to stretch'', rRecurring = False\<rparr>,
                \<lparr>rId = 2, rWho = ''bob'', rTime = 950, rToRemind = ''to call home'', rRecurring = True\<rparr>,
                \<lparr>rId = 3, rWho = ''carol'', rTime = 1000, rToRemind = ''to drink water'', rRecurring = False\<rparr>,
                \<lparr>rId = 4, rWho = ''dave'', rTime = 2000, rToRemind = ''to sleep'', rRecurring = True\<rparr>],
             preferences = []\<rparr> = Inr res
     \<and> sent res = [''<@alice>, reminding you to stretch.'', ''<@bob>, reminding you to call home.'']
     \<and> reminders (storeAfter res) =
          [\<lparr>rId = 2, rWho = ''bob'', rTime = 86400000000950, rToRemind = ''to call home'', rRecurring = True\<rparr>,
           \<lparr>rId = 3, rWho = ''carol'', rTime = 1000, rToRemind = ''to drink water'', rRecurring = False\<rparr>,
           \<lparr>rId = 4, rWho = ''dave'', rTime = 2000, rToRemind = ''to sleep'', rRecurring = True\<rparr>]"
proof -
  let ?t = "\<lparr>currentTime = 1000, dbFileMissing = False, selectFails = False,
             batchDeleteFails = False, updateFails = (\<lambda>i. False)\<rparr>"
  let ?db = "\<lparr>reminders =
               [\<lparr>rId = 1, rWho = ''alice'', rTime = 900, rToRemind = ''to stretch'', rRecurring = False\<rparr>,
                \<lparr>rId = 2, rWho = ''bob'', rTime = 950, rToRemind = ''to call home'', rRecurring = True\<rparr>,
                \<lparr>rId = 3, rWho = ''carol'', rTime = 1000, rToRemind = ''to drink water'', rRecurring = False\<rparr>,
                \<lparr>rId = 4, rWho = ''dave'', rTime = 2000, rToRemind = ''to sleep'', rRecurring = True\<rparr>],
             preferences = []\<rparr>"
  have ok: "tickOk ?t"
    by (simp add: tickOk_def)
  have ids: "distinct (map rId (reminders ?db))"
    by simp
  show ?thesis
    using sweep_correctness [OF ok ids]
    by (auto simp: reminderMessage_def addOneDay_def nanosPerDay_def)
qed

text \<open>
  The claim as stated, with "at or before", fails at the boundary: the source tests
  \<open>currentTime.UTC().After(time)\<close>, so a reminder whose time equals the tick's instant is
  not dispatched at that tick and stays in the store.
\<close>

theorem sweep_at_the_tick_instant_counterexample:
  "rTime \<lparr>rId = 3, rWho = ''carol'', rTime = 1000, rToRemind = ''to drink water'', rRecurring = False\<rparr>
     \<le> currentTime \<lparr>currentTime = 1000, dbFileMissing = False, selectFails = False,
                      batchDeleteFails = False, updateFails = (\<lambda>i. False)\<rparr>
   \<and> sweepTick \<lparr>currentTime = 1000, dbFileMissing = False, selectFails = False,
                 batchDeleteFails = False, updateFails = (\<lambda>i. False)\<rparr>
        \<lparr>reminders = [\<lparr>rId = 3, rWho = ''carol'', rTime = 1000, rToRemind = ''to drink water'',
                        rRecurring = False\<rparr>],
         preferences = []\<rparr>
     = Inr \<lparr>sent = [], rowsToDelete = [], rowsToUpdate = [],
            storeAfter = \<lparr>reminders = [\<lparr>rId = 3, rWho = ''carol'', rTime = 1000,
                                          rToRemind = ''to drink water'', rRecurring = False\<rparr>],
                          preferences = []\<rparr>\<rparr>"
  by (simp add: sweepTick_def)

lemma count_absent:
  assumes "i \<notin> rId ` set rows"
  shows "count_list (map rId (filter P rows)) i = 0"
  using assms by (induction rows) auto

lemma count_filtered:
  assumes "distinct (map rId rows)" "r \<in> set rows"
  shows "count_list (map rId (filter P rows)) (rId r) = (if P r then 1 else 0)"
  using assms
proof (induction rows)
  case Nil
  then show ?case by simp
next
  case (Cons x rows)
  show ?case
  proof (cases "r = x")
    case True
    from Cons.prems have "rId x \<notin> rId ` set rows" by simp
    from count_absent [OF this, of P] True show ?thesis by simp
  next
    case False
    with Cons.prems have "r \<in> set rows" "rId x \<noteq> rId r" "distinct (map rId rows)"
      by (auto simp: image_iff)
    with Cons.IH show ?thesis by simp
  qed
qed

lemma ids_after_sweep:
  assumes "tickOk t" "distinct (map rId (reminders db))" "sweepTick t db = Inr res"
  shows "map rId (reminders (storeAfter res))
           = filter (\<lambda>i. i \<notin> set (rowsToDelete res)) (map rId (reminders db))"
    and "distinct (map rId (reminders (storeAfter res)))"
    and "rId ` set (reminders (storeAfter res)) \<subseteq> rId ` set (reminders db)"
proof -
  let ?now = "currentTime t" and ?rows = "reminders db"
  let ?kept = "filter (\<lambda>r. rRecurring r \<or> \<not> rTime r < ?now) ?rows"
  from sweepTick_ok [OF assms(1,2)] assms(3)
  have after: "reminders (storeAfter res)
                 = map (\<lambda>r. if rTime r < ?now then r\<lparr>rTime := addOneDay (rTime r)\<rparr> else r) ?kept"
    and del: "rowsToDelete res = map rId (filter (\<lambda>r. rTime r < ?now \<and> \<not> rRecurring r) ?rows)"
    by auto
  have ids: "map rId (reminders (storeAfter res)) = map rId ?kept"
    unfolding after by (simp add: comp_def if_distrib [of rId] cong: if_cong)
  have "filter (\<lambda>r. rId r \<notin> set (rowsToDelete res)) ?rows = ?kept"
  proof (rule filter_cong [OF refl])
    fix r assume "r \<in> set ?rows"
    from rId_in_filtered [OF assms(2) this, of "\<lambda>r. rTime r < ?now \<and> \<not> rRecurring r"]
    show "(rId r \<notin> set (rowsToDelete res)) = (rRecurring r \<or> \<not> rTime r < ?now)"
      unfolding del by auto
  qed
  then show "map rId (reminders (storeAfter res))
               = filter (\<lambda>i. i \<notin> set (rowsToDelete res)) (map rId (reminders db))"
    by (simp add: ids filter_map comp_def)
  then show "distinct (map rId (reminders (storeAfter res)))"
    using assms(2) by simp
  from ids have "rId ` set (reminders (storeAfter res)) = rId ` set ?kept"
    by (metis set_map)
  then show "rId ` set (reminders (storeAfter res)) \<subseteq> rId ` set (reminders db)"
    by auto
qed

lemma sweepTick_returns:
  assumes "tickOk t" "distinct (map rId (reminders db))"
  shows "\<exists>res. sweepTick t db = Inr res"
  using sweepTick_ok [OF assms] by simp

lemma sent_is_per_due_row:
  assumes "tickOk t" "distinct (map rId (reminders db))" "sweepTick t db = Inr res"
  shows "sent res = map reminderMessage (dueRows (currentTime t) db)"
  using sweepTick_ok [OF assms(1,2)] assms(3) by (auto simp: dueRows_def)

lemma due_count_member:
  assumes "distinct (map rId (reminders db))" "r \<in> set (reminders db)"
  shows "count_list (map rId (dueRows now db)) (rId r) = (if rTime r < now then 1 else 0)"
  using count_filtered [OF assms, of "\<lambda>x. rTime x < now"] by (simp add: dueRows_def)

lemma due_count_absent:
  assumes "i \<notin> rId ` set (reminders db)"
  shows "count_list (map rId (dueRows now db)) i = 0"
  using count_absent [OF assms, of "\<lambda>x. rTime x < now"] by (simp add: dueRows_def)

lemma message_count_is_id_count:
  assumes "list_all (\<lambda>x. (reminderMessage x = reminderMessage r) = (rId x = rId r)) xs"
  shows "count_list (map reminderMessage xs) (reminderMessage r) = count_list (map rId xs) (rId r)"
  using assms by (induction xs) auto

lemma due_message_count:
  assumes "messageIdentifies r db"
  shows "count_list (map reminderMessage (dueRows now db)) (reminderMessage r)
           = count_list (map rId (dueRows now db)) (rId r)"
proof (rule message_count_is_id_count)
  from assms show "list_all (\<lambda>x. (reminderMessage x = reminderMessage r) = (rId x = rId r)) (dueRows now db)"
    by (auto simp: messageIdentifies_def dueRows_def list_all_iff)
qed

lemma messageIdentifies_after_sweep:
  assumes "tickOk t" "distinct (map rId (reminders db))" "sweepTick t db = Inr res"
    and "messageIdentifies r db"
  shows "messageIdentifies r (storeAfter res)"
proof -
  from sweepTick_ok [OF assms(1,2)] assms(3)
  have "reminders (storeAfter res)
          = map (\<lambda>r. if rTime r < currentTime t then r\<lparr>rTime := addOneDay (rTime r)\<rparr> else r)
              (filter (\<lambda>r. rRecurring r \<or> \<not> rTime r < currentTime t) (reminders db))"
    by auto
  with assms(4) show ?thesis
    by (auto simp: messageIdentifies_def list_all_iff reminderMessage_def)
qed

lemma handleReminders_ok:
  assumes "list_all tickOk ticks" "distinct (map rId (reminders db))"
  shows "\<exists>results db'. handleReminders db ticks = Inr (results, db')
           \<and> sentPerDueRow db ticks results
           \<and> (\<forall>i. i \<notin> rId ` set (reminders db) \<longrightarrow> timesDue i db ticks results = 0)
           \<and> (messageIdentifies r db \<longrightarrow>
                count_list (concat (map sent results)) (reminderMessage r)
                  = timesDue (rId r) db ticks results)"
  using assms
proof (induction ticks arbitrary: db)
  case Nil
  then show ?case by simp
next
  case (Cons t ticks)
  then have t: "tickOk t" and ts: "list_all tickOk ticks" by simp_all
  from sweepTick_returns [OF t Cons.prems(2)] obtain res where res: "sweepTick t db = Inr res" ..
  note after = ids_after_sweep [OF t Cons.prems(2) res]
  note msgs = sent_is_per_due_row [OF t Cons.prems(2) res]
  from Cons.IH [OF ts after(2)] obtain results db'
    where run: "handleReminders (storeAfter res) ticks = Inr (results, db')"
      and per: "sentPerDueRow (storeAfter res) ticks results"
      and zero: "\<forall>i. i \<notin> rId ` set (reminders (storeAfter res)) \<longrightarrow>
                   timesDue i (storeAfter res) ticks results = 0"
      and cnt: "messageIdentifies r (storeAfter res) \<longrightarrow>
                  count_list (concat (map sent results)) (reminderMessage r)
                    = timesDue (rId r) (storeAfter res) ticks results"
    by blast
  have whole: "handleReminders db (t # ticks) = Inr (res # results, db')"
    using res run by simp
  have per': "sentPerDueRow db (t # ticks) (res # results)"
    using msgs per by simp
  have zero': "timesDue i db (t # ticks) (res # results) = 0" if "i \<notin> rId ` set (reminders db)" for i
  proof -
    from that after(3) have "i \<notin> rId ` set (reminders (storeAfter res))" by blast
    with zero have "timesDue i (storeAfter res) ticks results = 0" by blast
    with due_count_absent [OF that] show ?thesis by simp
  qed
  have cnt': "count_list (concat (map sent (res # results))) (reminderMessage r)
                = timesDue (rId r) db (t # ticks) (res # results)"
    if "messageIdentifies r db"
  proof -
    from messageIdentifies_after_sweep [OF t Cons.prems(2) res that] cnt
    have "count_list (concat (map sent results)) (reminderMessage r)
            = timesDue (rId r) (storeAfter res) ticks results"
      by blast
    with due_message_count [OF that] msgs show ?thesis by simp
  qed
  from whole per' zero' cnt' show ?case by blast
qed

text \<open>
  C2 (as amended). On ticks at which the database file exists and the statements succeed,
  with ids unique in the table: every tick sends exactly one message for each row due in
  the store it finds, and nothing else. A reminder whose stored time lies before a tick's
  instant, however far, is among the due rows of that tick exactly once, so that tick
  sends its message once. If it is not recurring it is due at no later tick of the run:
  over the whole run its message is sent exactly once. If it is recurring it stays in the
  store with its time advanced by one day, and the very next tick sends its message again
  exactly when the advanced time is still before that tick's instant. (Counting a
  reminder's messages in what was sent supposes that no other stored reminder has the
  same message.)
\<close>

theorem overdue_delivery:
  assumes "tickOk t" "list_all tickOk ticks" "distinct (map rId (reminders db))"
    and "r \<in> set (reminders db)" "rTime r < currentTime t"
  shows "\<exists>results db'. handleReminders db (t # ticks) = Inr (results, db')
           \<and> sentPerDueRow db (t # ticks) results
           \<and> count_list (map rId (dueRows (currentTime t) db)) (rId r) = 1
           \<and> (messageIdentifies r db \<longrightarrow>
                count_list (sent (hd results)) (reminderMessage r) = 1)
           \<and> (\<not> rRecurring r \<longrightarrow>
                timesDue (rId r) db (t # ticks) results = 1
                \<and> (messageIdentifies r db \<longrightarrow>
                     count_list (concat (map sent results)) (reminderMessage r) = 1))
           \<and> (rRecurring r \<longrightarrow>
                r\<lparr>rTime := addOneDay (rTime r)\<rparr> \<in> set (reminders (storeAfter (hd results)))
                \<and> (\<forall>t2 rest. ticks = t2 # rest \<longrightarrow>
                      timesDue (rId r) db [t, t2] (take 2 results)
                        = (if addOneDay (rTime r) < currentTime t2 then 2 else 1)
                      \<and> (messageIdentifies r db \<longrightarrow>
                           count_list (concat (map sent (take 2 results))) (reminderMessage r)
                             = (if addOneDay (rTime r) < currentTime t2 then 2 else 1))))"
proof -
  let ?now = "currentTime t"
  let ?r' = "r\<lparr>rTime := addOneDay (rTime r)\<rparr>"
  from sweepTick_returns [OF assms(1,3)] obtain res where res: "sweepTick t db = Inr res" ..
  note after = ids_after_sweep [OF assms(1,3) res]
  note msgs = sent_is_per_due_row [OF assms(1,3) res]
  from handleReminders_ok [OF assms(2) after(2), of r] obtain results db'
    where run: "handleReminders (storeAfter res) ticks = Inr (results, db')"
      and per: "sentPerDueRow (storeAfter res) ticks results"
      and zero: "\<forall>i. i \<notin> rId ` set (reminders (storeAfter res)) \<longrightarrow>
                   timesDue i (storeAfter res) ticks results = 0"
      and cnt: "messageIdentifies r (storeAfter res) \<longrightarrow>
                  count_list (concat (map sent results)) (reminderMessage r)
                    = timesDue (rId r) (storeAfter res) ticks results"
    by blast
  have whole: "handleReminders db (t # ticks) = Inr (res # results, db')"
    using res run by simp
  have per': "sentPerDueRow db (t # ticks) (res # results)"
    using msgs per by simp
  have first: "count_list (map rId (dueRows ?now db)) (rId r) = 1"
    using due_count_member [OF assms(3,4), of ?now] assms(5) by simp
  have firstmsg: "count_list (sent res) (reminderMessage r) = 1" if "messageIdentifies r db"
    using due_message_count [OF that, of ?now] first msgs by simp
  have ident': "messageIdentifies r (storeAfter res)" if "messageIdentifies r db"
    using messageIdentifies_after_sweep [OF assms(1,3) res that] .
  from sweepTick_ok [OF assms(1,3)] res
  have rows': "reminders (storeAfter res)
                 = map (\<lambda>r. if rTime r < ?now then r\<lparr>rTime := addOneDay (rTime r)\<rparr> else r)
                     (filter (\<lambda>r. rRecurring r \<or> \<not> rTime r < ?now) (reminders db))"
    and del: "rowsToDelete res
                 = map rId (filter (\<lambda>r. rTime r < ?now \<and> \<not> rRecurring r) (reminders db))"
    by auto
  have gone: "timesDue (rId r) (storeAfter res) ticks results = 0" if "\<not> rRecurring r"
  proof -
    from rId_in_filtered [OF assms(3,4), of "\<lambda>r. rTime r < ?now \<and> \<not> rRecurring r"] that assms(5)
    have "rId r \<in> set (rowsToDelete res)"
      unfolding del by simp
    then have "rId r \<notin> set (map rId (reminders (storeAfter res)))"
      unfolding after(1) by simp
    then have "rId r \<notin> rId ` set (reminders (storeAfter res))"
      by simp
    with zero show ?thesis by blast
  qed
  have oneshot: "timesDue (rId r) db (t # ticks) (res # results) = 1" if "\<not> rRecurring r"
    using gone [OF that] first by simp
  have oneshotmsg: "count_list (concat (map sent (res # results))) (reminderMessage r) = 1"
    if "\<not> rRecurring r" "messageIdentifies r db"
  proof -
    from cnt ident' [OF that(2)] gone [OF that(1)]
    have "count_list (concat (map sent results)) (reminderMessage r) = 0" by simp
    with firstmsg [OF that(2)] show ?thesis by simp
  qed
  have kept: "?r' \<in> set (reminders (storeAfter res))" if "rRecurring r"
  proof -
    from that assms(4) have "r \<in> set (filter (\<lambda>r. rRecurring r \<or> \<not> rTime r < ?now) (reminders db))"
      by simp
    then have "(if rTime r < ?now then ?r' else r) \<in> set (reminders (storeAfter res))"
      unfolding rows' by (simp only: set_map) (rule imageI)
    with assms(5) show ?thesis by simp
  qed
  have again: "timesDue (rId r) db [t, t2] (take 2 (res # results))
                 = (if addOneDay (rTime r) < currentTime t2 then 2 else 1)
               \<and> (messageIdentifies r db \<longrightarrow>
                    count_list (concat (map sent (take 2 (res # results)))) (reminderMessage r)
                      = (if addOneDay (rTime r) < currentTime t2 then 2 else 1))"
    if "rRecurring r" "ticks = t2 # rest" for t2 rest
  proof -
    from assms(2) that(2) have t2: "tickOk t2" by simp
    from sweepTick_returns [OF t2 after(2)] obtain res2
      where res2: "sweepTick t2 (storeAfter res) = Inr res2" ..
    from run that(2) res2 obtain results2 where results: "results = res2 # results2"
      by (auto split: sum.splits)
    have second: "count_list (map rId (dueRows (currentTime t2) (storeAfter res))) (rId r)
            = (if addOneDay (rTime r) < currentTime t2 then 1 else 0)"
      using due_count_member [OF after(2) kept [OF that(1)], of "currentTime t2"] by simp
    have a: "timesDue (rId r) db [t, t2] (take 2 (res # results))
               = (if addOneDay (rTime r) < currentTime t2 then 2 else 1)"
      unfolding results using first second by simp
    have b: "count_list (concat (map sent (take 2 (res # results)))) (reminderMessage r)
               = (if addOneDay (rTime r) < currentTime t2 then 2 else 1)"
      if ident: "messageIdentifies r db"
    proof -
      have "count_list (sent res2) (reminderMessage r)
              = (if addOneDay (rTime r) < currentTime t2 then 1 else 0)"
        using due_message_count [OF ident' [OF ident], of "currentTime t2"] second
              sent_is_per_due_row [OF t2 after(2) res2]
        by simp
      with firstmsg [OF ident] show ?thesis
        unfolding results by simp
    qed
    from a b show ?thesis by blast
  qed
  from whole per' first firstmsg oneshot oneshotmsg kept again show ?thesis
    by (intro exI [of _ "res # results"] exI [of _ db']) simp
qed

theorem overdue_delivery_witness:
  "\<exists>results db'.
     handleReminders
       \<lparr>reminders =
          [\<lparr>rId = 1, rWho = ''alice'', rTime = 0, rToRemind = ''to stretch'', rRecurring = False\<rparr>,
           \<lparr>rId = 2, rWho = ''bob'', rTime = 0, rToRemind = ''to call home'', rRecurring = True\<rparr>,
           \<lparr>rId = 3, rWho = ''carol'', rTime = 259199999999000, rToRemind = ''to drink water'',
             rRecurring = True\<rparr>],
        preferences = []\<rparr>
       [\<lparr>currentTime = 259200000000000, dbFileMissing = False, selectFails = False,
          batchDeleteFails = False, updateFails = (\<lambda>i. False)\<rparr>,
        \<lparr>currentTime = 259260000000000, dbFileMissing = False, selectFails = False,
          batchDeleteFails = False, updateFails = (\<lambda>i. False)\<rparr>,
        \<lparr>currentTime = 259320000000000, dbFileMissing = False, selectFails = False,
          batchDeleteFails = False, updateFails = (\<lambda>i. False)\<rparr>]
       = Inr (results, db')
     \<and> count_list (concat (map sent results)) ''<@alice>, reminding you to stretch.'' = 1
     \<and> count_list (concat (map sent (take 2 results))) ''<@bob>, reminding you to call home.'' = 2
     \<and> count_list (concat (map sent (take 2 results))) ''<@carol>, reminding you to drink water.'' = 1"
proof -
  let ?r1 = "\<lparr>rId = 1, rWho = ''alice'', rTime = 0, rToRemind = ''to stretch'', rRecurring = False\<rparr>"
  let ?r2 = "\<lparr>rId = 2, rWho = ''bob'', rTime = 0, rToRemind = ''to call home'', rRecurring = True\<rparr>"
  let ?r3 = "\<lparr>rId = 3, rWho = ''carol'', rTime = 259199999999000, rToRemind = ''to drink water'',
              rRecurring = True\<rparr>"
  let ?db = "\<lparr>reminders = [?r1, ?r2, ?r3], preferences = []\<rparr>"
  let ?t1 = "\<lparr>currentTime = 259200000000000, dbFileMissing = False, selectFails = False,
              batchDeleteFails = False, updateFails = (\<lambda>i. False)\<rparr>"
  let ?t2 = "\<lparr>currentTime = 259260000000000, dbFileMissing = False, selectFails = False,
              batchDeleteFails = False, updateFails = (\<lambda>i. False)\<rparr>"
  let ?t3 = "\<lparr>currentTime = 259320000000000, dbFileMissing = False, selectFails = False,
              batchDeleteFails = False, updateFails = (\<lambda>i. False)\<rparr>"
  have ok: "tickOk ?t1" "list_all tickOk [?t2, ?t3]"
    by (simp_all add: tickOk_def)
  have ids: "distinct (map rId (reminders ?db))"
    by simp
  have mem: "?r1 \<in> set (reminders ?db)" "?r2 \<in> set (reminders ?db)" "?r3 \<in> set (reminders ?db)"
    by simp_all
  have due: "rTime ?r1 < currentTime ?t1" "rTime ?r2 < currentTime ?t1" "rTime ?r3 < currentTime ?t1"
    by simp_all
  have ident: "messageIdentifies ?r1 ?db" "messageIdentifies ?r2 ?db" "messageIdentifies ?r3 ?db"
    by (simp_all add: messageIdentifies_def reminderMessage_def)
  have shown: "reminderMessage ?r1 = ''<@alice>, reminding you to stretch.''"
    "reminderMessage ?r2 = ''<@bob>, reminding you to call home.''"
    "reminderMessage ?r3 = ''<@carol>, reminding you to drink water.''"
    by (simp_all add: reminderMessage_def)
  have again: "addOneDay (rTime ?r2) < currentTime ?t2" "\<not> addOneDay (rTime ?r3) < currentTime ?t2"
    by (simp_all add: addOneDay_def nanosPerDay_def)
  have kinds: "\<not> rRecurring ?r1" "rRecurring ?r2" "rRecurring ?r3"
    by simp_all
  from overdue_delivery [OF ok ids mem(1) due(1)] ident(1) kinds(1)
  obtain results db' where run: "handleReminders ?db [?t1, ?t2, ?t3] = Inr (results, db')"
    and c1: "count_list (concat (map sent results)) (reminderMessage ?r1) = 1"
    by blast
  from overdue_delivery [OF ok ids mem(2) due(2)] ident(2) kinds(2) again(1) run
  have c2: "count_list (concat (map sent (take 2 results))) (reminderMessage ?r2) = 2"
    by auto
  from overdue_delivery [OF ok ids mem(3) due(3)] ident(3) kinds(3) again(2) run
  have c3: "count_list (concat (map sent (take 2 results))) (reminderMessage ?r3) = 1"
    by auto
  from run c1 c2 c3 show ?thesis
    unfolding shown by blast
qed

text \<open>
  The claim as stated fails for a recurring reminder more than one day overdue: each
  firing advances its time by one day only, so a reminder three days overdue is still due
  at the next tick, one minute later, and is delivered again.
\<close>

theorem recurring_fires_on_consecutive_ticks_counterexample:
  "rTime \<lparr>rId = 2, rWho = ''bob'', rTime = 0, rToRemind = ''to call home'', rRecurring = True\<rparr>
     + 3 * nanosPerDay
     = currentTime \<lparr>currentTime = 259200000000000, dbFileMissing = False, selectFails = False,
                      batchDeleteFails = False, updateFails = (\<lambda>i. False)\<rparr>
   \<and> (\<exists>results db'.
        handleReminders
          \<lparr>reminders = [\<lparr>rId = 2, rWho = ''bob'', rTime = 0, rToRemind = ''to call home'',
                          rRecurring = True\<rparr>],
           preferences = []\<rparr>
          [\<lparr>currentTime = 259200000000000, dbFileMissing = False, selectFails = False,
             batchDeleteFails = False, updateFails = (\<lambda>i. False)\<rparr>,
           \<lparr>currentTime = 259260000000000, dbFileMissing = False, selectFails = False,
             batchDeleteFails = False, updateFails = (\<lambda>i. False)\<rparr>]
          = Inr (results, db')
        \<and> map sent results = [[''<@bob>, reminding you to call home.''],
                                [''<@bob>, reminding you to call home.'']]
        \<and> count_list (concat (map sent results)) ''<@bob>, reminding you to call home.'' = 2)"
  by (simp add: sweepTick_def reminderMessage_def addOneDay_def nanosPerDay_def)

section \<open>Properties of the schema bootstrap\<close>

text \<open>
  At version 2 \<open>bootstrapDb\<close> changes nothing; a failure in the step from version 1 to 2
  leaves the file as it was; a store at version 1 reaches version 2 when every call
  succeeds.
\<close>

lemma bootstrapDb_at_latest_version:
  assumes "\<not> fails OpenDb" "\<not> fails ReadUserVersion" "userVersion disk = 2"
  shows "bootstrapDb fails disk = (None, disk)"
  using assms by (simp add: bootstrapDb_def)

lemma case1_failure_leaves_file:
  assumes "case1 fails disk = (Some e, disk')"
  shows "disk' = disk"
  using assms by (auto simp: case1_def Let_def split: if_splits option.splits)

lemma bootstrapDb_from_version_1:
  "bootstrapDb (\<lambda>c. False)
     \<lparr>userVersion = 1, remindersColumns = Some [''id'', ''who'', ''time'', ''toRemind''],
      preferencesColumns = Some [''id'', ''who'', ''timezonePreference''], walMode = wal\<rparr>
     = (None,
        \<lparr>userVersion = 2,
         remindersColumns = Some [''id'', ''who'', ''time'', ''toRemind'', ''recurring''],
         preferencesColumns = Some [''id'', ''who'', ''timezonePreference''], walMode = wal\<rparr>)"
  by (simp add: bootstrapDb_def case1_def addRecurring_def)

text \<open>
  A store at version 0 without table \<open>TimezonePreferences\<close>, in rollback-journal mode or
  without table \<open>Reminders\<close>, never leaves version 0: whatever else succeeds, \<open>bootstrapDb\<close>
  returns an error and the file is as before, so the next start meets the same store.
\<close>

lemma bootstrapDb_locked_out:
  assumes "userVersion disk = 0" "lockedOut disk"
  shows "\<exists>e. bootstrapDb fails disk = (Some e, disk)"
  using assms by (simp add: bootstrapDb_def case0_def)

text \<open>
  C8 (the code departs from the claim). The step from version 0 to 1 is not wholly inside
  its transaction: \<open>CREATE TABLE TimezonePreferences\<close> is executed with \<open>db.Exec\<close>, not
  \<open>tx.Exec\<close>. On a fresh store, with no other failure, that statement is refused while the
  transaction is open: \<open>bootstrapDb\<close> returns its error, the transaction is rolled back and
  the store is still empty at version 0; a fresh store does not pass through the versions.
  On a store in write-ahead-log mode that already holds \<open>Reminders\<close> the statement
  succeeds, and when \<open>PRAGMA user_version = 1\<close> then fails the rollback does not undo it:
  the file keeps the new table \<open>TimezonePreferences\<close> while \<open>user_version\<close> is still 0.
\<close>

theorem bootstrapDb_fresh_store_is_locked_out:
  "bootstrapDb (\<lambda>c. False)
     \<lparr>userVersion = 0, remindersColumns = None, preferencesColumns = None, walMode = False\<rparr>
     = (Some CreateTimezonePreferences,
        \<lparr>userVersion = 0, remindersColumns = None, preferencesColumns = None, walMode = False\<rparr>)
   \<and> bootstrapDb (\<lambda>c. c = SetUserVersion1)
       \<lparr>userVersion = 0, remindersColumns = Some [''id'', ''who'', ''time'', ''toRemind''],
        preferencesColumns = None, walMode = True\<rparr>
     = (Some SetUserVersion1,
        \<lparr>userVersion = 0, remindersColumns = Some [''id'', ''who'', ''time'', ''toRemind''],
         preferencesColumns = Some [''id'', ''who'', ''timezonePreference''], walMode = True\<rparr>)"
  by (simp add: bootstrapDb_def case0_def lockedOut_def outsideWrite_def createReminders_def
        createTimezonePreferences_def)

end
